theory Spec2Isabelle
  imports Main "HOL-Library.AList"
begin

section \<open>String helpers used by the Python source\<close>

text \<open>
  Strings are byte lists. \<open>str.startswith\<close>, \<open>str.strip\<close>, \<open>str.replace(old, new, 1)\<close>,
  \<open>"|".join(parts)\<close> and \<open>str(int)\<close> are written out as list functions.
\<close>

definition startswith :: "string \<Rightarrow> string \<Rightarrow> bool" where
  "startswith s p = (take (length p) s = p)"

text \<open>
  The characters Python's \<open>str.isspace\<close> accepts among the code points 0..255 (a header
  value is decoded as latin-1, one byte per code point).
\<close>

definition isspace :: "char \<Rightarrow> bool" where
  "isspace c = (c \<in> set [CHR 0x09, CHR 0x0A, CHR 0x0B, CHR 0x0C, CHR 0x0D, CHR 0x1C, CHR 0x1D,
                          CHR 0x1E, CHR 0x1F, CHR 0x20, CHR 0x85, CHR 0xA0])"

definition strip :: "string \<Rightarrow> string" where
  "strip s = rev (dropWhile isspace (rev (dropWhile isspace s)))"

fun replace_first :: "string \<Rightarrow> string \<Rightarrow> string \<Rightarrow> string" where
  "replace_first old new [] = (if old = [] then new else [])"
| "replace_first old new (c # cs) =
     (if startswith (c # cs) old then new @ drop (length old) (c # cs)
      else c # replace_first old new cs)"

fun join :: "string \<Rightarrow> string list \<Rightarrow> string" where
  "join sep [] = []"
| "join sep [p] = p"
| "join sep (p # q # ps) = p @ sep @ join sep (q # ps)"

definition digit :: "nat \<Rightarrow> char" where
  "digit d = ''0123456789'' ! d"

fun str_nat :: "nat \<Rightarrow> string" where
  "str_nat n = (if n < 10 then [digit n] else str_nat (n div 10) @ [digit (n mod 10)])"

declare str_nat.simps [simp del]

definition str_int :: "int \<Rightarrow> string" where
  "str_int i = (if i < 0 then CHR ''-'' # str_nat (nat (- i)) else str_nat (nat i))"


section \<open>auth.py: the credential store\<close>

text \<open>
  \<open>AuthConfig\<close>. The two key tables that are only looked up, assigned and popped are maps;
  \<open>api_keys\<close> is scanned in insertion order by \<open>_find_existing_bearer\<close>, so it is an
  association list (assignment is \<open>AList.update\<close>: an existing key keeps its place, a new
  one goes to the end, as in a Python dict).
\<close>

record AuthConfig =
  validation_keys :: "string \<rightharpoonup> string"
  api_keys :: "(string \<times> string) list"
  validation_key_expires :: "string \<rightharpoonup> int"
  revoked_keys :: "string set"
  used_keys :: "string set"
  admin_bearer :: "string option"

text \<open>
  \<open>validate_activation_key(config, key)\<close>. The clock reading
  \<open>int(datetime.now(timezone.utc).timestamp())\<close> is the argument \<open>now\<close>. The result is the
  returned pair (team id, error message) and the configuration after the call.
  \<open>if not team_id\<close> is true for \<open>None\<close> and for the empty string.
\<close>

definition validate_activation_key ::
  "AuthConfig \<Rightarrow> int \<Rightarrow> string \<Rightarrow> (string option \<times> string option) \<times> AuthConfig" where
  "validate_activation_key config now key =
     (if key \<in> used_keys config then ((None, Some ''validation key already used''), config)
      else if key \<in> revoked_keys config then ((None, Some ''validation key revoked''), config)
      else (case validation_keys config key of
              None \<Rightarrow> ((None, Some ''invalid or expired validation key''), config)
            | Some team_id \<Rightarrow>
                if team_id = [] then ((None, Some ''invalid or expired validation key''), config)
                else if (case validation_key_expires config key of
                           None \<Rightarrow> False
                         | Some expires_at \<Rightarrow> now \<ge> expires_at)
                then ((None, Some ''validation key expired''), config)
                else ((Some team_id, None),
                      config\<lparr>used_keys := insert key (used_keys config),
                             validation_keys := (validation_keys config)(key := None)\<rparr>)))"

fun find_existing_bearer :: "(string \<times> string) list \<Rightarrow> string \<Rightarrow> string option" where
  "find_existing_bearer [] team_id = None"
| "find_existing_bearer ((bearer, mapped_team) # rest) team_id =
     (if mapped_team = team_id then Some bearer else find_existing_bearer rest team_id)"

text \<open>
  \<open>str.lower\<close> on the code points 0..255: the ASCII capitals and the Latin-1 capitals
  (0xC0 to 0xDE without the multiplication sign 0xD7) move up by 0x20, every other code
  point is kept.
\<close>

definition upper_chars :: "char list" where
  "upper_chars =
     ''ABCDEFGHIJKLMNOPQRSTUVWXYZ''
     @ [CHR 0xC0, CHR 0xC1, CHR 0xC2, CHR 0xC3, CHR 0xC4, CHR 0xC5, CHR 0xC6, CHR 0xC7,
        CHR 0xC8, CHR 0xC9, CHR 0xCA, CHR 0xCB, CHR 0xCC, CHR 0xCD, CHR 0xCE, CHR 0xCF,
        CHR 0xD0, CHR 0xD1, CHR 0xD2, CHR 0xD3, CHR 0xD4, CHR 0xD5, CHR 0xD6,
        CHR 0xD8, CHR 0xD9, CHR 0xDA, CHR 0xDB, CHR 0xDC, CHR 0xDD, CHR 0xDE]"

definition lower_chars :: "char list" where
  "lower_chars =
     ''abcdefghijklmnopqrstuvwxyz''
     @ [CHR 0xE0, CHR 0xE1, CHR 0xE2, CHR 0xE3, CHR 0xE4, CHR 0xE5, CHR 0xE6, CHR 0xE7,
        CHR 0xE8, CHR 0xE9, CHR 0xEA, CHR 0xEB, CHR 0xEC, CHR 0xED, CHR 0xEE, CHR 0xEF,
        CHR 0xF0, CHR 0xF1, CHR 0xF2, CHR 0xF3, CHR 0xF4, CHR 0xF5, CHR 0xF6,
        CHR 0xF8, CHR 0xF9, CHR 0xFA, CHR 0xFB, CHR 0xFC, CHR 0xFD, CHR 0xFE]"

definition lower_char :: "char \<Rightarrow> char" where
  "lower_char c = (case map_of (zip upper_chars lower_chars) c of Some l \<Rightarrow> l | None \<Rightarrow> c)"

definition lower :: "string \<Rightarrow> string" where
  "lower s = map lower_char s"

text \<open>
  \<open>issue_bearer_for_team(config, team_id)\<close>; \<open>uuid_hex\<close> is the value of
  \<open>uuid.uuid4().hex\<close>. \<open>if existing\<close> is false for \<open>None\<close> and for an empty bearer.
\<close>

definition issue_bearer_for_team :: "AuthConfig \<Rightarrow> string \<Rightarrow> string \<Rightarrow> string \<times> AuthConfig" where
  "issue_bearer_for_team config team_id uuid_hex =
     (case find_existing_bearer (api_keys config) team_id of
        Some existing \<Rightarrow>
          if existing \<noteq> [] then (existing, config)
          else (let bearer = lower team_id @ ''_'' @ uuid_hex
                in (bearer, config\<lparr>api_keys := AList.update bearer team_id (api_keys config)\<rparr>))
      | None \<Rightarrow>
          (let bearer = lower team_id @ ''_'' @ uuid_hex
           in (bearer, config\<lparr>api_keys := AList.update bearer team_id (api_keys config)\<rparr>)))"

definition resolve_team_id :: "AuthConfig \<Rightarrow> string \<Rightarrow> string option" where
  "resolve_team_id config bearer = map_of (api_keys config) bearer"

definition is_admin_bearer :: "AuthConfig \<Rightarrow> string \<Rightarrow> bool" where
  "is_admin_bearer config bearer =
     (case admin_bearer config of
        None \<Rightarrow> False
      | Some a \<Rightarrow> if a = [] then False else bearer = a)"


subsection \<open>The authorization gate: \<open>BearerAuthMiddleware.dispatch\<close>\<close>

text \<open>
  What the middleware leaves on \<open>request.state\<close> before it calls the next layer.
\<close>

record request_state =
  rs_team_id :: "string option"
  rs_bearer :: "string option"
  rs_is_admin :: bool

definition no_request_state :: request_state where
  "no_request_state = \<lparr>rs_team_id = None, rs_bearer = None, rs_is_admin = False\<rparr>"

text \<open>
  The middleware either answers by itself (\<open>JSONResponse(status_code, {"error": message})\<close>)
  or calls the next layer with the request state it has set.
\<close>

datatype gate = Reject int string | CallNext request_state

text \<open>
  \<open>dispatch\<close>: \<open>authorization\<close> is the Authorization header when the request has one
  (\<open>request.headers.get("Authorization", "")\<close> reads an absent header as the empty string).
\<close>

definition dispatch :: "AuthConfig \<Rightarrow> string set \<Rightarrow> string \<Rightarrow> string option \<Rightarrow> gate" where
  "dispatch config public_paths path authorization =
     (if path \<in> public_paths \<or> startswith path ''/docs'' \<or> startswith path ''/openapi''
         \<or> startswith path ''/redoc''
      then CallNext no_request_state
      else
        (let auth_header = (case authorization of None \<Rightarrow> [] | Some h \<Rightarrow> h) in
         if \<not> startswith auth_header ''Bearer '' then Reject 401 ''missing bearer token''
         else
           (let bearer = strip (replace_first ''Bearer '' [] auth_header) in
            if bearer = [] then Reject 401 ''missing bearer token''
            else if startswith path ''/admin/'' then
              (if admin_bearer config = None \<or> admin_bearer config = Some []
               then Reject 503 ''admin bearer not configured''
               else if \<not> is_admin_bearer config bearer then Reject 401 ''invalid admin bearer''
               else CallNext (no_request_state\<lparr>rs_is_admin := True\<rparr>))
            else
              (case resolve_team_id config bearer of
                 None \<Rightarrow> Reject 401 ''invalid bearer token''
               | Some team_id \<Rightarrow>
                   if team_id = [] then Reject 401 ''invalid bearer token''
                   else CallNext (no_request_state\<lparr>rs_team_id := Some team_id,
                                                   rs_bearer := Some bearer\<rparr>)))))"

text \<open>
  \<open>require_team_id\<close>: the dependency of every team-scoped handler. \<open>Inl\<close> carries the
  \<open>HTTPException(status_code, detail)\<close> it raises.
\<close>

definition require_team_id :: "request_state \<Rightarrow> (int \<times> string) + string" where
  "require_team_id rs =
     (case rs_team_id rs of
        None \<Rightarrow> Inl (401, ''unauthorized'')
      | Some team_id \<Rightarrow> if team_id = [] then Inl (401, ''unauthorized'') else Inr team_id)"


section \<open>models.py: request and response bodies\<close>

record ActivationRequest =
  act_validation_key :: string
  act_machine_fingerprint :: string
  act_app_version :: string

record HeartbeatRequest =
  hb_player_id :: string
  hb_role :: string
  hb_version :: string

record ChampSelectStartRequest =
  css_date :: string
  css_opposite_team :: string
  css_patch :: string
  css_tr :: string
  css_side :: string

text \<open>
  A \<open>Dict[str, str]\<close> of a request body is the list of its items in the order
  \<open>.items()\<close> and \<open>.values()\<close> yield them.
\<close>

record DraftCompleteRequest =
  dc_game_id :: string
  dc_draft :: "(string \<times> string) list"

record GameStartRequest =
  gs_game_id :: string
  gs_positions :: "(string \<times> string) list"

record GameFinishedRequest =
  gf_game_id :: string
  gf_win :: string

datatype StreamRole = TOP | JUNGLE | MID | ADC | SUPPORT | GLOBAL

fun role_value :: "StreamRole \<Rightarrow> string" where
  "role_value TOP = ''TOP''"
| "role_value JUNGLE = ''JUNGLE''"
| "role_value MID = ''MID''"
| "role_value ADC = ''ADC''"
| "role_value SUPPORT = ''SUPPORT''"
| "role_value GLOBAL = ''GLOBAL''"

datatype StreamPlatform = SERVER | YOUTUBE

fun platform_value :: "StreamPlatform \<Rightarrow> string" where
  "platform_value SERVER = ''server''"
| "platform_value YOUTUBE = ''youtube''"

record StreamReadyRequest =
  sr_game_id :: string
  sr_role :: StreamRole
  sr_vod_url :: string
  sr_platform :: StreamPlatform
  sr_player_id :: "string option"

text \<open>
  The responses: \<open>_error(status_code, message)\<close>, the response models (their \<open>status\<close>
  field is the default \<open>"ok"\<close>, HTTP status 200), and the answers the framework gives
  by itself, by status (404, 405, 307, 422).
\<close>

datatype response =
    JSONError int string
  | GameSessionResponse "string option" "string option" "int option"
  | GameIdResponse string
  | Ack
  | ActivationResponse string string
  | FrameworkError int

fun status_code :: "response \<Rightarrow> int" where
  "status_code (JSONError code msg) = code"
| "status_code (FrameworkError code) = code"
| "status_code r = 200"


section \<open>sheets.py: the row store adapter, at its boundary\<close>

text \<open>
  The handlers call \<open>sheets_writer\<close> and read back a row index, a success flag and the
  \<open>enabled\<close> property; what the remote service does is outside the program. Each request
  therefore comes with the answers of its environment:
  \<^item> \<open>env_now\<close>: the clock reading of \<open>validate_activation_key\<close>;
  \<^item> \<open>env_game_id\<close>: the value of \<open>_generate_game_id()\<close> (clock and \<open>uuid4\<close>);
  \<^item> \<open>env_uuid_hex\<close>: the value of \<open>uuid.uuid4().hex\<close> in \<open>issue_bearer_for_team\<close>;
  \<^item> \<open>env_append\<close>: what \<open>append_game_row\<close>, \<open>append_stream_event\<close> or
    \<open>append_activation_row\<close> returns (\<open>None\<close> after three failed attempts, or when
    the writer is disabled);
  \<^item> \<open>env_update\<close>: what \<open>update_game_row\<close> returns;
  \<^item> \<open>env_enabled\<close>: \<open>sheets_writer.enabled\<close> as the handler reads it after that call.
  The calls a handler makes on the adapter are returned as a list, in order (the
  timestamps passed along are left out).
\<close>

record env =
  env_now :: int
  env_game_id :: string
  env_uuid_hex :: string
  env_enabled :: bool
  env_append :: "int option"
  env_update :: bool

datatype store_call =
    AppendGameRow "string list"
  | UpdateGameRow int "string list"
  | AppendStreamEvent string string string string string string "string option"
  | AppendActivationRow string string string
  | AppendDedupeRow string


section \<open>main.py: session tracker, deduplicator and handlers\<close>

definition GAMES_COLUMNS :: "string list" where
  "GAMES_COLUMNS =
     [''game_id'', ''date'', ''opposite_team'', ''game_number'', ''patch'', ''tr'', ''side'', ''win'',
      ''BB1'', ''BB2'', ''BB3'', ''BP1'', ''BP2'', ''BP3'', ''BB4'', ''BB5'', ''BP4'', ''BP5'',
      ''RB1'', ''RB2'', ''RB3'', ''RP1'', ''RP2'', ''RP3'', ''RB4'', ''RB5'', ''RP4'', ''RP5'',
      ''BT'', ''BJ'', ''BM'', ''BA'', ''BS'', ''RT'', ''RJ'', ''RM'', ''RA'', ''RS'']"

definition GAME_COLUMNS_SET :: "string set" where
  "GAME_COLUMNS_SET = set GAMES_COLUMNS"

definition POSITION_COLUMNS :: "string set" where
  "POSITION_COLUMNS = set [''BT'', ''BJ'', ''BM'', ''BA'', ''BS'', ''RT'', ''RJ'', ''RM'', ''RA'', ''RS'']"

text \<open>
  \<open>DraftCache\<close>, the session of one team. \<open>row_data\<close> is a dict that is assigned by key
  and read by key: its items in insertion order.
\<close>

record DraftCache =
  game_id :: string
  draft_count :: int
  row_index :: "int option"
  row_data :: "(string \<times> string) list"
  game_number :: int
  date :: string

text \<open>
  The module's mutable globals: \<open>auth_config\<close>, \<open>draft_cache\<close>, \<open>game_counters\<close> and
  \<open>event_dedupe\<close>. A handler takes them and returns them as it leaves them.
\<close>

record app_state =
  auth_config :: AuthConfig
  draft_cache :: "string \<rightharpoonup> DraftCache"
  game_counters :: "string \<rightharpoonup> (string \<rightharpoonup> int)"
  event_dedupe :: "string set"

type_synonym outcome = "response \<times> store_call list \<times> app_state"

definition draft_richness :: "(string \<times> string) list \<Rightarrow> int" where
  "draft_richness draft = int (length (filter (\<lambda>value. value \<noteq> []) (map snd draft)))"

text \<open>
  \<open>_get_game_counter\<close>: \<open>setdefault\<close> on the outer dict, then the increment of the inner
  entry; returns the new entry and the table.
\<close>

definition get_game_counter ::
  "(string \<rightharpoonup> (string \<rightharpoonup> int)) \<Rightarrow> string \<Rightarrow> string \<Rightarrow> int \<times> (string \<rightharpoonup> (string \<rightharpoonup> int))" where
  "get_game_counter counters team_id d =
     (let team_counters = (case counters team_id of None \<Rightarrow> Map.empty | Some tc \<Rightarrow> tc);
          n = (case team_counters d of None \<Rightarrow> 0 | Some c \<Rightarrow> c) + 1
      in (n, counters(team_id \<mapsto> team_counters(d \<mapsto> n))))"

definition build_row :: "(string \<times> string) list \<Rightarrow> string list" where
  "build_row rd = map (\<lambda>column. case map_of rd column of None \<Rightarrow> [] | Some v \<Rightarrow> v) GAMES_COLUMNS"

fun update_row_data :: "(string \<times> string) list \<Rightarrow> (string \<times> string) list \<Rightarrow> (string \<times> string) list" where
  "update_row_data rd [] = rd"
| "update_row_data rd ((key, value) # updates) =
     update_row_data (if key \<in> GAME_COLUMNS_SET then AList.update key value rd else rd) updates"

definition dedupe_key :: "string list \<Rightarrow> string" where
  "dedupe_key parts = join ''|'' parts"

text \<open>
  \<open>POST /activate\<close>. \<open>message_or_default\<close> is
  \<open>error_message or "invalid or expired validation key"\<close>.
\<close>

definition message_or_default :: "string option \<Rightarrow> string" where
  "message_or_default error_message =
     (case error_message of
        None \<Rightarrow> ''invalid or expired validation key''
      | Some m \<Rightarrow> if m = [] then ''invalid or expired validation key'' else m)"

definition activate :: "app_state \<Rightarrow> ActivationRequest \<Rightarrow> env \<Rightarrow> outcome" where
  "activate st payload e =
     (case validate_activation_key (auth_config st) (env_now e) (act_validation_key payload) of
        ((None, error_message), config1) \<Rightarrow>
          (JSONError 400 (message_or_default error_message), [], st\<lparr>auth_config := config1\<rparr>)
      | ((Some team_id, error_message), config1) \<Rightarrow>
          if team_id = []
          then (JSONError 400 (message_or_default error_message), [], st\<lparr>auth_config := config1\<rparr>)
          else
            (let (bearer, config2) = issue_bearer_for_team config1 team_id (env_uuid_hex e);
                 st2 = st\<lparr>auth_config := config2\<rparr>;
                 calls = [AppendActivationRow bearer team_id (act_validation_key payload)]
             in if env_enabled e \<and> env_append e = None
                then (JSONError 502 ''failed to write activation to sheets'', calls, st2)
                else (ActivationResponse bearer team_id, calls, st2)))"

text \<open>\<open>POST /client/heartbeat\<close>.\<close>

definition client_heartbeat :: "app_state \<Rightarrow> string \<Rightarrow> HeartbeatRequest \<Rightarrow> outcome" where
  "client_heartbeat st team_id payload =
     (case draft_cache st team_id of
        None \<Rightarrow> (GameSessionResponse (Some ''no ongoing game'') None None, [], st)
      | Some cache \<Rightarrow>
          (GameSessionResponse None (Some (game_id cache)) (Some (game_number cache)), [], st))"

text \<open>
  \<open>POST /events/champ_select_start\<close>. The counter is drawn before the row is written; the
  session is stored after the write has been checked.
\<close>

definition champ_select_start :: "app_state \<Rightarrow> string \<Rightarrow> ChampSelectStartRequest \<Rightarrow> env \<Rightarrow> outcome" where
  "champ_select_start st team_id payload e =
     (case draft_cache st team_id of
        Some cache \<Rightarrow>
          (GameSessionResponse (Some ''game already active'') (Some (game_id cache))
             (Some (game_number cache)), [], st)
      | None \<Rightarrow>
          (let gid = env_game_id e;
               (gnum, counters1) = get_game_counter (game_counters st) team_id (css_date payload);
               st1 = st\<lparr>game_counters := counters1\<rparr>;
               rd = [(''game_id'', gid), (''date'', css_date payload),
                     (''opposite_team'', css_opposite_team payload),
                     (''game_number'', str_int gnum), (''patch'', css_patch payload),
                     (''tr'', css_tr payload), (''side'', css_side payload)];
               ri = env_append e;
               calls = [AppendGameRow (build_row rd)]
           in if env_enabled e \<and> ri = None
              then (JSONError 502 ''failed to write game row to sheets'', calls, st1)
              else (GameSessionResponse None (Some gid) (Some gnum), calls,
                    st1\<lparr>draft_cache := (draft_cache st1)(team_id \<mapsto>
                          \<lparr>game_id = gid, draft_count = 0, row_index = ri, row_data = rd,
                           game_number = gnum, date = css_date payload\<rparr>)\<rparr>)))"

text \<open>
  \<open>POST /events/draft_complete\<close>. \<open>_update_row_data\<close> changes the session's dict in place,
  before the write; \<open>draft_count\<close> is assigned after the write has been checked.
\<close>

definition draft_complete :: "app_state \<Rightarrow> string \<Rightarrow> DraftCompleteRequest \<Rightarrow> env \<Rightarrow> outcome" where
  "draft_complete st team_id payload e =
     (case draft_cache st team_id of
        None \<Rightarrow> (JSONError 400 ''no active game for team'', [], st)
      | Some cache \<Rightarrow>
          if game_id cache \<noteq> dc_game_id payload
          then (JSONError 400 ''no active game for team'', [], st)
          else
            (let dcount = draft_richness (dc_draft payload) in
             if dcount \<le> draft_count cache then (GameIdResponse (game_id cache), [], st)
             else
               (let cache1 = cache\<lparr>row_data := update_row_data (row_data cache) (dc_draft payload)\<rparr>
                in case row_index cache1 of
                     Some ri \<Rightarrow>
                       (let calls = [UpdateGameRow ri (build_row (row_data cache1))] in
                        if env_enabled e \<and> \<not> env_update e
                        then (JSONError 502 ''failed to update game row in sheets'', calls,
                              st\<lparr>draft_cache := (draft_cache st)(team_id \<mapsto> cache1)\<rparr>)
                        else (GameIdResponse (game_id cache1), calls,
                              st\<lparr>draft_cache := (draft_cache st)(team_id \<mapsto>
                                    cache1\<lparr>draft_count := dcount\<rparr>)\<rparr>))
                   | None \<Rightarrow>
                       (let calls = [AppendGameRow (build_row (row_data cache1))];
                            cache2 = cache1\<lparr>row_index := env_append e\<rparr>
                        in if env_enabled e \<and> row_index cache2 = None
                           then (JSONError 502 ''failed to write game row to sheets'', calls,
                                 st\<lparr>draft_cache := (draft_cache st)(team_id \<mapsto> cache2)\<rparr>)
                           else (GameIdResponse (game_id cache2), calls,
                                 st\<lparr>draft_cache := (draft_cache st)(team_id \<mapsto>
                                       cache2\<lparr>draft_count := dcount\<rparr>)\<rparr>)))))"


text \<open>
  \<open>POST /events/game_start\<close>. The session check comes first, then the dedupe check; the
  position columns are merged in place before the write; the dedupe key is added after it.
\<close>

definition game_start :: "app_state \<Rightarrow> string \<Rightarrow> GameStartRequest \<Rightarrow> env \<Rightarrow> outcome" where
  "game_start st team_id payload e =
     (case draft_cache st team_id of
        None \<Rightarrow> (JSONError 400 ''no active game for team'', [], st)
      | Some cache \<Rightarrow>
          if game_id cache \<noteq> gs_game_id payload
          then (JSONError 400 ''no active game for team'', [], st)
          else
            (let dkey = dedupe_key [team_id, ''game_start'', gs_game_id payload] in
             if dkey \<in> event_dedupe st then (JSONError 409 ''duplicate event'', [], st)
             else
               (let positions = filter (\<lambda>(key, value). key \<in> POSITION_COLUMNS) (gs_positions payload);
                    cache1 = cache\<lparr>row_data := update_row_data (row_data cache) positions\<rparr>;
                    dedupe_calls = (if env_enabled e then [AppendDedupeRow dkey] else [])
                in case row_index cache1 of
                     Some ri \<Rightarrow>
                       (let calls = [UpdateGameRow ri (build_row (row_data cache1))] in
                        if env_enabled e \<and> \<not> env_update e
                        then (JSONError 502 ''failed to update game row in sheets'', calls,
                              st\<lparr>draft_cache := (draft_cache st)(team_id \<mapsto> cache1)\<rparr>)
                        else (Ack, calls @ dedupe_calls,
                              st\<lparr>draft_cache := (draft_cache st)(team_id \<mapsto> cache1),
                                 event_dedupe := insert dkey (event_dedupe st)\<rparr>))
                   | None \<Rightarrow>
                       (let calls = [AppendGameRow (build_row (row_data cache1))];
                            cache2 = cache1\<lparr>row_index := env_append e\<rparr>
                        in if env_enabled e \<and> row_index cache2 = None
                           then (JSONError 502 ''failed to write game row to sheets'', calls,
                                 st\<lparr>draft_cache := (draft_cache st)(team_id \<mapsto> cache2)\<rparr>)
                           else (Ack, calls @ dedupe_calls,
                                 st\<lparr>draft_cache := (draft_cache st)(team_id \<mapsto> cache2),
                                    event_dedupe := insert dkey (event_dedupe st)\<rparr>)))))"

text \<open>
  \<open>POST /events/game_finished\<close>. As \<open>game_start\<close>, with the outcome field; the row index
  of an append stays in a local variable; the session is popped after the write.
\<close>

definition game_finished :: "app_state \<Rightarrow> string \<Rightarrow> GameFinishedRequest \<Rightarrow> env \<Rightarrow> outcome" where
  "game_finished st team_id payload e =
     (case draft_cache st team_id of
        None \<Rightarrow> (JSONError 400 ''no active game for team'', [], st)
      | Some cache \<Rightarrow>
          if game_id cache \<noteq> gf_game_id payload
          then (JSONError 400 ''no active game for team'', [], st)
          else
            (let dkey = dedupe_key [team_id, ''game_finished'', gf_game_id payload] in
             if dkey \<in> event_dedupe st then (JSONError 409 ''duplicate event'', [], st)
             else
               (let cache1 = cache\<lparr>row_data := update_row_data (row_data cache) [(''win'', gf_win payload)]\<rparr>;
                    dedupe_calls = (if env_enabled e then [AppendDedupeRow dkey] else []);
                    finished = st\<lparr>draft_cache := (draft_cache st)(team_id := None),
                              event_dedupe := insert dkey (event_dedupe st)\<rparr>
                in case row_index cache1 of
                     Some ri \<Rightarrow>
                       (let calls = [UpdateGameRow ri (build_row (row_data cache1))] in
                        if env_enabled e \<and> \<not> env_update e
                        then (JSONError 502 ''failed to update game row in sheets'', calls,
                              st\<lparr>draft_cache := (draft_cache st)(team_id \<mapsto> cache1)\<rparr>)
                        else (Ack, calls @ dedupe_calls, finished))
                   | None \<Rightarrow>
                       (let calls = [AppendGameRow (build_row (row_data cache1))];
                            ri = env_append e
                        in if env_enabled e \<and> ri = None
                           then (JSONError 502 ''failed to write game row to sheets'', calls,
                                 st\<lparr>draft_cache := (draft_cache st)(team_id \<mapsto> cache1)\<rparr>)
                           else (Ack, calls @ dedupe_calls, finished)))))"

text \<open>
  \<open>POST /events/stream_ready\<close>. There is no session lookup: the dedupe check, the write,
  then the dedupe key.
\<close>

definition stream_ready :: "app_state \<Rightarrow> string \<Rightarrow> StreamReadyRequest \<Rightarrow> env \<Rightarrow> outcome" where
  "stream_ready st team_id payload e =
     (let dkey = dedupe_key [team_id, ''stream_ready'', sr_game_id payload, role_value (sr_role payload)] in
      if dkey \<in> event_dedupe st then (JSONError 409 ''duplicate event'', [], st)
      else
        (let ri = env_append e;
             calls = [AppendStreamEvent team_id ''stream_ready'' (sr_game_id payload)
                        (role_value (sr_role payload)) (sr_vod_url payload)
                        (platform_value (sr_platform payload)) (sr_player_id payload)]
         in if env_enabled e \<and> ri = None
            then (JSONError 502 ''failed to write stream row to sheets'', calls, st)
            else (Ack, calls @ (if env_enabled e then [AppendDedupeRow dkey] else []),
                  st\<lparr>event_dedupe := insert dkey (event_dedupe st)\<rparr>)))"


section \<open>The application: gate, routes, sequences of requests\<close>

text \<open>The team-scoped endpoints with their bodies, and the handler each path is bound to.\<close>

datatype event =
    Heartbeat HeartbeatRequest
  | ChampSelectStart ChampSelectStartRequest
  | DraftComplete DraftCompleteRequest
  | GameStart GameStartRequest
  | GameFinished GameFinishedRequest
  | StreamReady StreamReadyRequest

fun event_path :: "event \<Rightarrow> string" where
  "event_path (Heartbeat p) = ''/client/heartbeat''"
| "event_path (ChampSelectStart p) = ''/events/champ_select_start''"
| "event_path (DraftComplete p) = ''/events/draft_complete''"
| "event_path (GameStart p) = ''/events/game_start''"
| "event_path (GameFinished p) = ''/events/game_finished''"
| "event_path (StreamReady p) = ''/events/stream_ready''"

fun handle :: "app_state \<Rightarrow> string \<Rightarrow> event \<Rightarrow> env \<Rightarrow> outcome" where
  "handle st team_id (Heartbeat p) e = client_heartbeat st team_id p"
| "handle st team_id (ChampSelectStart p) e = champ_select_start st team_id p e"
| "handle st team_id (DraftComplete p) e = draft_complete st team_id p e"
| "handle st team_id (GameStart p) e = game_start st team_id p e"
| "handle st team_id (GameFinished p) e = game_finished st team_id p e"
| "handle st team_id (StreamReady p) e = stream_ready st team_id p e"

text \<open>
  A request: path, Authorization header, and a body that fits the model of one endpoint
  (all endpoints are POST). \<open>serve\<close> is the application as \<open>main.py\<close> assembles it: the
  middleware with \<open>public_paths = {"/activate"}\<close>, then the route; a body that does not
  fit the route's model is the framework's 422, an unknown path its 404 (\<open>unrouted\<close>
  below); the \<open>HTTPException\<close> of \<open>require_team_id\<close> goes through
  \<open>http_exception_handler\<close>.
\<close>

datatype body = ActivationBody ActivationRequest | EventBody event

record request =
  req_path :: string
  req_authorization :: "string option"
  req_body :: body

definition public_paths :: "string set" where
  "public_paths = {''/activate''}"

definition route_paths :: "string list" where
  "route_paths =
     [''/activate'', ''/client/heartbeat'', ''/events/champ_select_start'', ''/events/draft_complete'',
      ''/events/game_start'', ''/events/game_finished'', ''/events/stream_ready'']"

text \<open>
  The documentation routes the framework registers by default; they answer GET only.
\<close>

definition doc_paths :: "string list" where
  "doc_paths = [''/docs'', ''/redoc'', ''/openapi.json'', ''/docs/oauth2-redirect'']"

text \<open>
  What the framework answers by itself to a POST that reaches no handler: 422 on a route
  whose body model the body does not fit, 405 on a documentation route, a 307 redirect
  when the path is a registered one with a slash added, 404 otherwise.
\<close>

definition unrouted :: "app_state \<Rightarrow> string \<Rightarrow> outcome" where
  "unrouted st path =
     (FrameworkError
        (if path \<in> set route_paths then 422
         else if path \<in> set doc_paths then 405
         else if path \<in> set (map (\<lambda>registered. registered @ ''/'') (route_paths @ doc_paths)) then 307
         else 404),
      [], st)"

definition route :: "app_state \<Rightarrow> request_state \<Rightarrow> request \<Rightarrow> env \<Rightarrow> outcome" where
  "route st rs req e =
     (case req_body req of
        ActivationBody p \<Rightarrow>
          if req_path req = ''/activate'' then activate st p e else unrouted st (req_path req)
      | EventBody ev \<Rightarrow>
          if req_path req = event_path ev then
            (case require_team_id rs of
               Inl (code, detail) \<Rightarrow> (JSONError code detail, [], st)
             | Inr team_id \<Rightarrow> handle st team_id ev e)
          else unrouted st (req_path req))"

definition serve :: "app_state \<Rightarrow> request \<Rightarrow> env \<Rightarrow> outcome" where
  "serve st req e =
     (case dispatch (auth_config st) public_paths (req_path req) (req_authorization req) of
        Reject code message \<Rightarrow> (JSONError code message, [], st)
      | CallNext rs \<Rightarrow> route st rs req e)"

text \<open>The state after a sequence of requests, each with the answers of its environment.\<close>

fun serve_all :: "app_state \<Rightarrow> (request \<times> env) list \<Rightarrow> app_state" where
  "serve_all st [] = st"
| "serve_all st ((req, e) # rest) = serve_all (snd (snd (serve st req e))) rest"


section \<open>Sequences of calls\<close>

text \<open>
  The calls that change the credential store, in any order: \<open>validate_activation_key\<close> at
  a clock reading, and \<open>issue_bearer_for_team\<close> with the hex string it draws.
\<close>

datatype credential_call = ValidateActivation int string | IssueBearer string string

fun after_calls :: "AuthConfig \<Rightarrow> credential_call list \<Rightarrow> AuthConfig" where
  "after_calls config [] = config"
| "after_calls config (ValidateActivation now key # rest) =
     after_calls (snd (validate_activation_key config now key)) rest"
| "after_calls config (IssueBearer team_id uuid_hex # rest) =
     after_calls (snd (issue_bearer_for_team config team_id uuid_hex)) rest"

text \<open>How many of the calls \<open>validate_activation_key(config, k)\<close> in a sequence return a team id.\<close>

fun successes :: "string \<Rightarrow> AuthConfig \<Rightarrow> credential_call list \<Rightarrow> nat" where
  "successes k config [] = 0"
| "successes k config (ValidateActivation now key # rest) =
     (if key = k \<and> fst (fst (validate_activation_key config now key)) \<noteq> None then 1 else 0)
     + successes k (snd (validate_activation_key config now key)) rest"
| "successes k config (IssueBearer team_id uuid_hex # rest) =
     successes k (snd (issue_bearer_for_team config team_id uuid_hex)) rest"

text \<open>
  A sequence of handler calls (team id, endpoint with body, environment): what each call
  answers and which adapter calls it makes, and the state after the last one.
\<close>

fun handle_all ::
  "app_state \<Rightarrow> (string \<times> event \<times> env) list \<Rightarrow> (response \<times> store_call list) list \<times> app_state" where
  "handle_all st [] = ([], st)"
| "handle_all st ((team_id, ev, e) # rest) =
     (case handle st team_id ev e of
        (r, calls, st1) \<Rightarrow> (case handle_all st1 rest of (rs, st2) \<Rightarrow> ((r, calls) # rs, st2)))"


text \<open>
  The game id an event body carries, and the dedupe key its handler builds
  (\<open>_dedupe_key(team_id, kind, game_id[, role])\<close>) when the endpoint is dedupe-guarded.
\<close>

fun event_game_id :: "event \<Rightarrow> string option" where
  "event_game_id (DraftComplete p) = Some (dc_game_id p)"
| "event_game_id (GameStart p) = Some (gs_game_id p)"
| "event_game_id (GameFinished p) = Some (gf_game_id p)"
| "event_game_id (StreamReady p) = Some (sr_game_id p)"
| "event_game_id ev = None"

fun event_key :: "string \<Rightarrow> event \<Rightarrow> string option" where
  "event_key team_id (GameStart p) = Some (dedupe_key [team_id, ''game_start'', gs_game_id p])"
| "event_key team_id (GameFinished p) = Some (dedupe_key [team_id, ''game_finished'', gf_game_id p])"
| "event_key team_id (StreamReady p) =
     Some (dedupe_key [team_id, ''stream_ready'', sr_game_id p, role_value (sr_role p)])"
| "event_key team_id ev = None"

text \<open>
  The fields a handler passes to \<open>_update_row_data\<close> before it writes: the draft of
  \<open>draft_complete\<close>, the position columns of \<open>game_start\<close>, the outcome of
  \<open>game_finished\<close>; the other endpoints merge nothing.
\<close>

fun merged_fields :: "event \<Rightarrow> (string \<times> string) list" where
  "merged_fields (DraftComplete p) = dc_draft p"
| "merged_fields (GameStart p) = filter (\<lambda>(key, value). key \<in> POSITION_COLUMNS) (gs_positions p)"
| "merged_fields (GameFinished p) = [(''win'', gf_win p)]"
| "merged_fields ev = []"

text \<open>The one endpoint that opens a session.\<close>

fun is_start :: "event \<Rightarrow> bool" where
  "is_start (ChampSelectStart p) = True"
| "is_start ev = False"

text \<open>
  The entry of \<open>game_counters\<close> for a team and a date as \<open>_get_game_counter\<close> reads it:
  \<open>team_counters.get(date, 0)\<close>, with a missing team read as the empty dict.
\<close>

definition counter_of :: "app_state \<Rightarrow> string \<Rightarrow> string \<Rightarrow> int" where
  "counter_of st t d =
     (case game_counters st t of
        None \<Rightarrow> 0
      | Some team_counters \<Rightarrow> (case team_counters d of None \<Rightarrow> 0 | Some c \<Rightarrow> c))"

text \<open>
  What one answer of \<open>champ_select_start\<close> for team \<open>t\<close> and date \<open>d\<close> shows of the counter:
  a new session with its game number, or the 502 of a failed write (the number drawn is
  not in the answer); the answer "game already active" and every other call show nothing.
\<close>

fun drawn :: "string \<Rightarrow> string \<Rightarrow> string \<Rightarrow> event \<Rightarrow> response \<Rightarrow> int option list" where
  "drawn t d team_id (ChampSelectStart p) (GameSessionResponse None gid (Some n)) =
     (if team_id = t \<and> css_date p = d then [Some n] else [])"
| "drawn t d team_id (ChampSelectStart p) (JSONError code message) =
     (if team_id = t \<and> css_date p = d then [None] else [])"
| "drawn t d team_id ev r = []"

fun start_numbers :: "string \<Rightarrow> string \<Rightarrow> app_state \<Rightarrow> (string \<times> event \<times> env) list \<Rightarrow> int option list" where
  "start_numbers t d st [] = []"
| "start_numbers t d st ((team_id, ev, e) # rest) =
     (case handle st team_id ev e of
        (r, calls, st1) \<Rightarrow> drawn t d team_id ev r @ start_numbers t d st1 rest)"

text \<open>The fields of a session other than its row-field dict.\<close>

definition session_core :: "DraftCache \<Rightarrow> string \<times> int \<times> int option \<times> int \<times> string" where
  "session_core cache =
     (game_id cache, draft_count cache, row_index cache, game_number cache, date cache)"


text \<open>An environment whose write does not fail: the writer is disabled, or the write lands.\<close>

definition write_lands :: "env \<Rightarrow> bool" where
  "write_lands e = (env_enabled e \<longrightarrow> env_update e \<and> env_append e \<noteq> None)"


section \<open>Concrete inputs\<close>

definition example_config :: AuthConfig where
  "example_config =
     \<lparr>validation_keys = [''K1'' \<mapsto> ''KC''], api_keys = [(''kc_0a1b'', ''KC'')],
      validation_key_expires = [''K1'' \<mapsto> 200], revoked_keys = {}, used_keys = {},
      admin_bearer = None\<rparr>"

definition initial_state :: app_state where
  "initial_state =
     \<lparr>auth_config = example_config, draft_cache = Map.empty, game_counters = Map.empty,
      event_dedupe = {}\<rparr>"

text \<open>The session of the repository's test \<open>test_sheets_write_failure_is_handled\<close>.\<close>

definition example_session :: DraftCache where
  "example_session =
     \<lparr>game_id = ''g_test'', draft_count = 0, row_index = Some 1,
      row_data = [(''game_id'', ''g_test''), (''date'', ''2026-01-07''), (''game_number'', ''1'')],
      game_number = 1, date = ''2026-01-07''\<rparr>"

definition active_state :: app_state where
  "active_state = initial_state\<lparr>draft_cache := [''KC'' \<mapsto> example_session]\<rparr>"

text \<open>
  Three environments: the writer disabled (every write returns nothing and is ignored), the
  writer enabled with a write that fails after its retries, the writer enabled with a
  write that lands in row 5.
\<close>

definition env_disabled :: env where
  "env_disabled =
     \<lparr>env_now = 100, env_game_id = ''g_20260107_1200_ab12'', env_uuid_hex = ''00ff'',
      env_enabled = False, env_append = None, env_update = False\<rparr>"

definition env_failing :: env where
  "env_failing = env_disabled\<lparr>env_enabled := True\<rparr>"

definition env_writing :: env where
  "env_writing = env_disabled\<lparr>env_enabled := True, env_append := Some 5, env_update := True\<rparr>"

definition example_start :: ChampSelectStartRequest where
  "example_start =
     \<lparr>css_date = ''2026-01-07'', css_opposite_team = ''T1'', css_patch = ''14.1'',
      css_tr = ''TR1'', css_side = ''BLUE''\<rparr>"

definition example_stream :: StreamReadyRequest where
  "example_stream =
     \<lparr>sr_game_id = ''g_unknown'', sr_role = MID, sr_vod_url = ''https://vod/1'',
      sr_platform = YOUTUBE, sr_player_id = None\<rparr>"

definition example_finish :: GameFinishedRequest where
  "example_finish = \<lparr>gf_game_id = ''g_test'', gf_win = ''W''\<rparr>"

definition example_heartbeat :: HeartbeatRequest where
  "example_heartbeat = \<lparr>hb_player_id = ''p1'', hb_role = ''MID'', hb_version = ''1.0.0''\<rparr>"

definition example_draft :: DraftCompleteRequest where
  "example_draft = \<lparr>dc_game_id = ''g_test'', dc_draft = [(''BP1'', ''Maokai'')]\<rparr>"

definition stale_draft :: DraftCompleteRequest where
  "stale_draft = \<lparr>dc_game_id = ''g_test'', dc_draft = [(''BP1'', [])]\<rparr>"

definition example_positions :: GameStartRequest where
  "example_positions = \<lparr>gs_game_id = ''g_test'', gs_positions = [(''BM'', ''Azir'')]\<rparr>"



text \<open>The \<open>game_finished\<close> body for the game that \<open>example_start\<close> opens.\<close>

definition started_finish :: GameFinishedRequest where
  "started_finish = \<lparr>gf_game_id = ''g_20260107_1200_ab12'', gf_win = ''W''\<rparr>"


text \<open>The definitions a concrete run unfolds.\<close>

lemmas example_defs = example_config_def initial_state_def example_session_def active_state_def
  env_disabled_def env_failing_def env_writing_def example_start_def example_finish_def
  example_heartbeat_def example_draft_def example_positions_def

lemmas eval_defs = client_heartbeat_def champ_select_start_def draft_complete_def game_start_def
  game_finished_def stream_ready_def Let_def dedupe_key_def GAME_COLUMNS_SET_def GAMES_COLUMNS_def
  POSITION_COLUMNS_def draft_richness_def get_game_counter_def counter_of_def
  str_int_def str_nat.simps digit_def


section \<open>The credential store\<close>

lemma validate_activation_key_used:
  "key \<in> used_keys config \<Longrightarrow>
   validate_activation_key config now key = ((None, Some ''validation key already used''), config)"
  by (simp add: validate_activation_key_def)

lemma validate_activation_key_used_mono:
  "used_keys config \<subseteq> used_keys (snd (validate_activation_key config now key))"
  by (auto simp: validate_activation_key_def split: option.splits)

lemma issue_bearer_for_team_used:
  "used_keys (snd (issue_bearer_for_team config team_id uuid_hex)) = used_keys config"
  by (simp add: issue_bearer_for_team_def Let_def split: option.splits)

lemma after_calls_used_mono: "used_keys config \<subseteq> used_keys (after_calls config calls)"
proof (induction config calls rule: after_calls.induct)
  case (1 config)
  show ?case by simp
next
  case (2 config now key rest)
  from validate_activation_key_used_mono [of config now key] 2 show ?case
    by auto
next
  case (3 config team_id uuid_hex rest)
  then show ?case by (simp add: issue_bearer_for_team_used)
qed

lemma successes_used: "k \<in> used_keys config \<Longrightarrow> successes k config calls = 0"
proof (induction k config calls rule: successes.induct)
  case (1 k config)
  show ?case by simp
next
  case (2 k config now key rest)
  from 2(2) validate_activation_key_used_mono [of config now key]
  have "k \<in> used_keys (snd (validate_activation_key config now key))" by blast
  with 2 show ?case by (auto simp: validate_activation_key_used)
next
  case (3 k config team_id uuid_hex rest)
  then show ?case by (simp add: issue_bearer_for_team_used)
qed

lemma validate_activation_key_success:
  "validate_activation_key config now key = ((Some team_id, err), config1) \<Longrightarrow>
   key \<notin> used_keys config \<and> used_keys config1 = insert key (used_keys config)
   \<and> validation_keys config1 = (validation_keys config)(key := None)
   \<and> validation_keys config key = Some team_id \<and> err = None"
  by (auto simp: validate_activation_key_def split: option.splits if_splits)

lemma successes_le_1: "successes k config calls \<le> 1"
proof (induction k config calls rule: successes.induct)
  case (1 k config)
  show ?case by simp
next
  case (2 k config now key rest)
  show ?case
  proof (cases "key = k \<and> fst (fst (validate_activation_key config now key)) \<noteq> None")
    case True
    then obtain team_id err config1
      where v: "validate_activation_key config now key = ((Some team_id, err), config1)"
      by (metis not_None_eq prod.collapse)
    from validate_activation_key_success [OF v] True have "k \<in> used_keys config1" by simp
    then have "successes k config1 rest = 0" by (rule successes_used)
    with v True show ?thesis by simp
  next
    case False
    with 2 show ?thesis by auto
  qed
next
  case (3 k config team_id uuid_hex rest)
  then show ?case by simp
qed

text \<open>
  C2, as the code has it. \<open>validate_activation_key\<close> answers with the first reason that
  applies, in this order: the key is in the used set ("validation key already used"); it
  is in the revoked set ("validation key revoked"); the active mapping has no team for it,
  or an empty one ("invalid or expired validation key"); it has an expiry timestamp and
  the current time is at or after that timestamp ("validation key expired"). Every
  rejection leaves the store as it was. Otherwise the call returns the owning team id,
  adds the key to the used set and removes it from the active mapping.
\<close>

theorem validate_activation_key_priority:
  "validate_activation_key config now key =
     (if key \<in> used_keys config then ((None, Some ''validation key already used''), config)
      else if key \<in> revoked_keys config then ((None, Some ''validation key revoked''), config)
      else if validation_keys config key = None \<or> validation_keys config key = Some []
        then ((None, Some ''invalid or expired validation key''), config)
      else if (\<exists>expires_at. validation_key_expires config key = Some expires_at \<and> expires_at \<le> now)
        then ((None, Some ''validation key expired''), config)
      else ((validation_keys config key, None),
            config\<lparr>used_keys := insert key (used_keys config),
                   validation_keys := (validation_keys config)(key := None)\<rparr>))"
  by (auto simp: validate_activation_key_def split: option.splits)

theorem validate_activation_key_priority_witness:
  "validate_activation_key example_config 100 ''K1'' =
     ((Some ''KC'', None),
      example_config\<lparr>used_keys := {''K1''}, validation_keys := [''K1'' \<mapsto> ''KC''](''K1'' := None)\<rparr>)
   \<and> validate_activation_key example_config 200 ''K1'' =
       ((None, Some ''validation key expired''), example_config)
   \<and> validate_activation_key example_config 100 ''K2'' =
       ((None, Some ''invalid or expired validation key''), example_config)"
  using validate_activation_key_priority [of example_config 100 "''K1''"]
    validate_activation_key_priority [of example_config 200 "''K1''"]
    validate_activation_key_priority [of example_config 100 "''K2''"]
  by (simp add: example_config_def)

text \<open>
  C2 as the claim words the expiry test fails in both directions: a key whose expiry
  timestamp (200) is after the current time (100) is accepted, and the same key is
  rejected as expired once the current time (300) is past the timestamp.
\<close>

theorem validate_activation_key_expiry_counterexample:
  "(200::int) \<ge> 100
   \<and> fst (validate_activation_key example_config 100 ''K1'') = (Some ''KC'', None)
   \<and> \<not> (200::int) \<ge> 300
   \<and> fst (validate_activation_key example_config 300 ''K1'') = (None, Some ''validation key expired'')"
  by (simp add: validate_activation_key_def example_config_def)

text \<open>
  C8. In any sequence of credential-store calls, at most one call of
  \<open>validate_activation_key\<close> with key \<open>k\<close> returns a team id. A call that does so adds \<open>k\<close>
  to the used set and removes it from the active mapping in that same call, and after
  it, whatever calls come in between and whatever the clock reads, every call with \<open>k\<close>
  is rejected with "validation key already used" and changes nothing.
\<close>

theorem validate_activation_key_at_most_once:
  "successes k config calls \<le> 1
   \<and> (validate_activation_key config now k = ((Some team_id, err), config1) \<longrightarrow>
        k \<notin> used_keys config
        \<and> used_keys config1 = insert k (used_keys config)
        \<and> validation_keys config1 = (validation_keys config)(k := None)
        \<and> (\<forall>later now'.
              validate_activation_key (after_calls config1 later) now' k =
                ((None, Some ''validation key already used''), after_calls config1 later)))"
proof (intro conjI impI allI)
  show "successes k config calls \<le> 1" by (rule successes_le_1)
next
  assume v: "validate_activation_key config now k = ((Some team_id, err), config1)"
  from validate_activation_key_success [OF v]
  show "k \<notin> used_keys config" "used_keys config1 = insert k (used_keys config)"
    "validation_keys config1 = (validation_keys config)(k := None)" by simp_all
  fix later now'
  from validate_activation_key_success [OF v] have "k \<in> used_keys config1" by simp
  with after_calls_used_mono [of config1 later] have "k \<in> used_keys (after_calls config1 later)"
    by blast
  then show "validate_activation_key (after_calls config1 later) now' k =
      ((None, Some ''validation key already used''), after_calls config1 later)"
    by (rule validate_activation_key_used)
qed


theorem validate_activation_key_at_most_once_witness:
  "fst (validate_activation_key example_config 100 ''K1'') = (Some ''KC'', None)
   \<and> successes ''K1'' example_config [ValidateActivation 100 ''K1'', ValidateActivation 100 ''K1''] \<le> 1
   \<and> fst (validate_activation_key
            (after_calls (snd (validate_activation_key example_config 100 ''K1''))
               [IssueBearer ''KC'' ''00ff''])
            150 ''K1'') = (None, Some ''validation key already used'')"
proof -
  have h: "validate_activation_key example_config 100 ''K1'' =
      ((Some ''KC'', None), snd (validate_activation_key example_config 100 ''K1''))"
    by (simp add: validate_activation_key_def example_config_def)
  from validate_activation_key_at_most_once
         [of "''K1''" example_config "[ValidateActivation 100 ''K1'', ValidateActivation 100 ''K1'']"
             100 "''KC''" None "snd (validate_activation_key example_config 100 ''K1'')"] h
  have a: "successes ''K1'' example_config [ValidateActivation 100 ''K1'', ValidateActivation 100 ''K1''] \<le> 1"
    and b: "\<forall>later now'.
        validate_activation_key
          (after_calls (snd (validate_activation_key example_config 100 ''K1'')) later) now' ''K1'' =
        ((None, Some ''validation key already used''),
         after_calls (snd (validate_activation_key example_config 100 ''K1'')) later)"
    by blast+
  from b have "fst (validate_activation_key
            (after_calls (snd (validate_activation_key example_config 100 ''K1''))
               [IssueBearer ''KC'' ''00ff''])
            150 ''K1'') = (None, Some ''validation key already used'')"
    by (metis fst_conv)
  with a h show ?thesis by (metis fst_conv)
qed



section \<open>The handlers\<close>

subsection \<open>What a handler has done when it answers 502\<close>

lemma row_index_None_update: "row_index cache = None \<Longrightarrow> cache\<lparr>row_index := None\<rparr> = cache"
  by simp

lemma row_data_row_index_None:
  "row_index cache = None \<Longrightarrow> cache\<lparr>row_data := rd, row_index := None\<rparr> = cache\<lparr>row_data := rd\<rparr>"
  by simp

lemma draft_complete_502:
  assumes "draft_complete st team_id p e = (JSONError 502 message, calls, st1)"
  shows "\<exists>cache. draft_cache st team_id = Some cache \<and> game_id cache = dc_game_id p
           \<and> draft_count cache < draft_richness (dc_draft p)
           \<and> st1 = st\<lparr>draft_cache := (draft_cache st)(team_id \<mapsto>
                 cache\<lparr>row_data := update_row_data (row_data cache) (dc_draft p)\<rparr>)\<rparr>"
proof (cases "draft_cache st team_id")
  case None
  with assms show ?thesis by (simp add: draft_complete_def)
next
  case (Some cache)
  show ?thesis
  proof (cases "row_index cache")
    case None
    with Some assms show ?thesis
      by (auto simp: draft_complete_def Let_def row_data_row_index_None split: if_splits)
  next
    case (Some ri)
    with \<open>draft_cache st team_id = Some cache\<close> assms show ?thesis
      by (auto simp: draft_complete_def Let_def split: if_splits)
  qed
qed

lemma game_start_502:
  assumes "game_start st team_id p e = (JSONError 502 message, calls, st1)"
  shows "\<exists>cache. draft_cache st team_id = Some cache \<and> game_id cache = gs_game_id p
           \<and> dedupe_key [team_id, ''game_start'', gs_game_id p] \<notin> event_dedupe st
           \<and> st1 = st\<lparr>draft_cache := (draft_cache st)(team_id \<mapsto>
                 cache\<lparr>row_data := update_row_data (row_data cache)
                    (filter (\<lambda>(key, value). key \<in> POSITION_COLUMNS) (gs_positions p))\<rparr>)\<rparr>"
proof (cases "draft_cache st team_id")
  case None
  with assms show ?thesis by (simp add: game_start_def)
next
  case (Some cache)
  show ?thesis
  proof (cases "row_index cache")
    case None
    with Some assms show ?thesis
      by (auto simp: game_start_def Let_def row_data_row_index_None split: if_splits)
  next
    case (Some ri)
    with \<open>draft_cache st team_id = Some cache\<close> assms show ?thesis
      by (auto simp: game_start_def Let_def split: if_splits)
  qed
qed

lemma game_finished_502:
  assumes "game_finished st team_id p e = (JSONError 502 message, calls, st1)"
  shows "\<exists>cache. draft_cache st team_id = Some cache \<and> game_id cache = gf_game_id p
           \<and> dedupe_key [team_id, ''game_finished'', gf_game_id p] \<notin> event_dedupe st
           \<and> st1 = st\<lparr>draft_cache := (draft_cache st)(team_id \<mapsto>
                 cache\<lparr>row_data := update_row_data (row_data cache) [(''win'', gf_win p)]\<rparr>)\<rparr>"
proof (cases "draft_cache st team_id")
  case None
  with assms show ?thesis by (simp add: game_finished_def)
next
  case (Some cache)
  show ?thesis
  proof (cases "row_index cache")
    case None
    with Some assms show ?thesis
      by (auto simp: game_finished_def Let_def simp del: update_row_data.simps split: if_splits)
  next
    case (Some ri)
    with \<open>draft_cache st team_id = Some cache\<close> assms show ?thesis
      by (auto simp: game_finished_def Let_def simp del: update_row_data.simps split: if_splits)
  qed
qed

lemma stream_ready_502:
  assumes "stream_ready st team_id p e = (JSONError 502 message, calls, st1)"
  shows "st1 = st
         \<and> dedupe_key [team_id, ''stream_ready'', sr_game_id p, role_value (sr_role p)] \<notin> event_dedupe st"
  using assms by (auto simp: stream_ready_def Let_def split: if_splits)


lemma counter_of_get:
  "get_game_counter (game_counters st) team_id dd = (n, counters1) \<Longrightarrow>
   n = counter_of st team_id dd + 1
   \<and> counter_of (st\<lparr>game_counters := counters1\<rparr>) t d =
       counter_of st t d + (if t = team_id \<and> d = dd then 1 else 0)"
  by (cases "t = team_id"; cases "d = dd")
     (auto simp: get_game_counter_def counter_of_def Let_def split: option.splits)

lemma champ_select_start_502:
  assumes "champ_select_start st team_id p e = (JSONError 502 message, calls, st1)"
  shows "draft_cache st team_id = None
     \<and> st1 = st\<lparr>game_counters := snd (get_game_counter (game_counters st) team_id (css_date p))\<rparr>"
  using assms
  by (auto simp: champ_select_start_def Let_def split: option.splits if_splits prod.splits)

lemma champ_select_start_retry:
  "draft_cache st team_id = None \<Longrightarrow> write_lands e \<Longrightarrow>
   status_code (fst (champ_select_start st team_id p e)) = 200"
  by (auto simp: champ_select_start_def Let_def write_lands_def split: prod.splits)

lemma draft_complete_retry:
  "draft_cache st team_id = Some cache \<Longrightarrow> game_id cache = dc_game_id p \<Longrightarrow> write_lands e \<Longrightarrow>
   status_code (fst (draft_complete st team_id p e)) = 200"
  by (auto simp: draft_complete_def Let_def write_lands_def split: option.splits)

lemma game_start_retry:
  "draft_cache st team_id = Some cache \<Longrightarrow> game_id cache = gs_game_id p \<Longrightarrow>
   dedupe_key [team_id, ''game_start'', gs_game_id p] \<notin> event_dedupe st \<Longrightarrow> write_lands e \<Longrightarrow>
   status_code (fst (game_start st team_id p e)) = 200"
  by (auto simp: game_start_def Let_def write_lands_def split: option.splits)

lemma game_finished_retry:
  "draft_cache st team_id = Some cache \<Longrightarrow> game_id cache = gf_game_id p \<Longrightarrow>
   dedupe_key [team_id, ''game_finished'', gf_game_id p] \<notin> event_dedupe st \<Longrightarrow> write_lands e \<Longrightarrow>
   status_code (fst (game_finished st team_id p e)) = 200"
  by (auto simp: game_finished_def Let_def write_lands_def split: option.splits)

lemma stream_ready_retry:
  "dedupe_key [team_id, ''stream_ready'', sr_game_id p, role_value (sr_role p)] \<notin> event_dedupe st \<Longrightarrow>
   write_lands e \<Longrightarrow> status_code (fst (stream_ready st team_id p e)) = 200"
  by (auto simp: stream_ready_def Let_def write_lands_def)


subsection \<open>Merging the same fields twice\<close>

lemma update_commute:
  "k \<noteq> j \<Longrightarrow> k \<in> fst ` set al \<or> j \<in> fst ` set al \<Longrightarrow>
   AList.update k v (AList.update j w al) = AList.update j w (AList.update k v al)"
  by (induction al) auto

lemma update_row_data_keys: "k \<in> fst ` set rd \<Longrightarrow> k \<in> fst ` set (update_row_data rd u)"
proof (induction u arbitrary: rd)
  case Nil
  then show ?case by simp
next
  case (Cons a u)
  obtain key "value" where a: "a = (key, value)" by (cases a)
  from Cons(2) have "k \<in> fst ` set (AList.update key value rd)"
    by (simp add: AList.dom_update)
  with Cons a show ?case by simp
qed

lemma update_row_data_absorb:
  "k \<in> fst ` set rd \<Longrightarrow> k \<in> GAME_COLUMNS_SET \<Longrightarrow> k \<in> fst ` set u \<Longrightarrow>
   update_row_data (AList.update k v rd) u = update_row_data rd u"
proof (induction u arbitrary: rd)
  case Nil
  then show ?case by simp
next
  case (Cons a u)
  obtain key "value" where a: "a = (key, value)" by (cases a)
  show ?case
  proof (cases "key = k")
    case True
    with a Cons(3) show ?thesis by simp
  next
    case False
    with Cons(4) a have in_rest: "k \<in> fst ` set u" by auto
    show ?thesis
    proof (cases "key \<in> GAME_COLUMNS_SET")
      case True
      have c: "AList.update key value (AList.update k v rd) = AList.update k v (AList.update key value rd)"
        using False Cons(2) by (intro update_commute) auto
      have "k \<in> fst ` set (AList.update key value rd)"
        using Cons(2) by (simp add: AList.dom_update)
      from Cons(1) [OF this Cons(3) in_rest] c True a show ?thesis by simp
    next
      case False
      with Cons(1) [OF Cons(2,3) in_rest] a show ?thesis by simp
    qed
  qed
qed

lemma update_row_data_push:
  "k \<in> fst ` set rd \<Longrightarrow> k \<notin> fst ` set u \<Longrightarrow>
   update_row_data (AList.update k v rd) u = AList.update k v (update_row_data rd u)"
proof (induction u arbitrary: rd)
  case Nil
  then show ?case by simp
next
  case (Cons a u)
  obtain key "value" where a: "a = (key, value)" by (cases a)
  from Cons(3) a have ne: "key \<noteq> k" and rest: "k \<notin> fst ` set u" by auto
  show ?case
  proof (cases "key \<in> GAME_COLUMNS_SET")
    case True
    have c: "AList.update key value (AList.update k v rd) = AList.update k v (AList.update key value rd)"
      using ne Cons(2) by (intro update_commute) auto
    have "k \<in> fst ` set (AList.update key value rd)"
      using Cons(2) by (simp add: AList.dom_update)
    from Cons(1) [OF this rest] c True a show ?thesis by simp
  next
    case False
    with Cons(1) [OF Cons(2) rest] a show ?thesis by simp
  qed
qed

lemma update_row_data_idem:
  "update_row_data (update_row_data rd u) u = update_row_data rd u"
proof (induction u arbitrary: rd)
  case Nil
  show ?case by simp
next
  case (Cons a u)
  obtain key "value" where a: "a = (key, value)" by (cases a)
  show ?case
  proof (cases "key \<in> GAME_COLUMNS_SET")
    case False
    with Cons a show ?thesis by simp
  next
    case True
    let ?R = "update_row_data (AList.update key value rd) u"
    have IH: "update_row_data ?R u = ?R" by (rule Cons)
    have k0: "key \<in> fst ` set (AList.update key value rd)" by (simp add: AList.dom_update)
    then have dom: "key \<in> fst ` set ?R" by (rule update_row_data_keys)
    have "update_row_data (AList.update key value ?R) u = ?R"
    proof (cases "key \<in> fst ` set u")
      case True
      from update_row_data_absorb [OF dom \<open>key \<in> GAME_COLUMNS_SET\<close> True] IH show ?thesis by simp
    next
      case False
      have "?R = AList.update key value (update_row_data (AList.update key value rd) u)"
        using update_row_data_push [OF k0 False, of "value"] by simp
      then have "AList.update key value ?R = ?R" by (metis AList.update_last)
      with IH show ?thesis by simp
    qed
    with True a show ?thesis by simp
  qed
qed


subsection \<open>The same request after a 502\<close>

lemma draft_complete_again:
  assumes "draft_cache st team_id = Some cache" and "game_id cache = dc_game_id p"
    and "draft_count cache < draft_richness (dc_draft p)"
  shows "draft_complete
           (st\<lparr>draft_cache := (draft_cache st)(team_id \<mapsto>
                 cache\<lparr>row_data := update_row_data (row_data cache) (dc_draft p)\<rparr>)\<rparr>) team_id p e
         = draft_complete st team_id p e"
proof (cases "row_index cache")
  case None
  with assms show ?thesis
    by (simp add: draft_complete_def Let_def update_row_data_idem)
next
  case (Some ri)
  with assms show ?thesis
    by (simp add: draft_complete_def Let_def update_row_data_idem)
qed

lemma game_start_again:
  assumes "draft_cache st team_id = Some cache" and "game_id cache = gs_game_id p"
    and "dedupe_key [team_id, ''game_start'', gs_game_id p] \<notin> event_dedupe st"
  shows "game_start
           (st\<lparr>draft_cache := (draft_cache st)(team_id \<mapsto>
                 cache\<lparr>row_data := update_row_data (row_data cache)
                    (filter (\<lambda>(key, value). key \<in> POSITION_COLUMNS) (gs_positions p))\<rparr>)\<rparr>) team_id p e
         = game_start st team_id p e"
proof (cases "row_index cache")
  case None
  with assms show ?thesis
    by (simp add: game_start_def Let_def update_row_data_idem)
next
  case (Some ri)
  with assms show ?thesis
    by (simp add: game_start_def Let_def update_row_data_idem)
qed

lemma game_finished_again:
  assumes "draft_cache st team_id = Some cache" and "game_id cache = gf_game_id p"
    and "dedupe_key [team_id, ''game_finished'', gf_game_id p] \<notin> event_dedupe st"
  shows "game_finished
           (st\<lparr>draft_cache := (draft_cache st)(team_id \<mapsto>
                 cache\<lparr>row_data := update_row_data (row_data cache) [(''win'', gf_win p)]\<rparr>)\<rparr>) team_id p e
         = game_finished st team_id p e"
proof (cases "row_index cache")
  case None
  with assms show ?thesis
    by (simp add: game_finished_def Let_def update_row_data_idem del: update_row_data.simps)
next
  case (Some ri)
  with assms show ?thesis
    by (simp add: game_finished_def Let_def update_row_data_idem del: update_row_data.simps)
qed

lemma champ_select_start_lands:
  "draft_cache st team_id = None \<Longrightarrow> write_lands e \<Longrightarrow>
   fst (champ_select_start st team_id p e) =
     GameSessionResponse None (Some (env_game_id e)) (Some (counter_of st team_id (css_date p) + 1))"
proof -
  assume n: "draft_cache st team_id = None" and w: "write_lands e"
  obtain k counters1 where g: "get_game_counter (game_counters st) team_id (css_date p) = (k, counters1)"
    by (cases "get_game_counter (game_counters st) team_id (css_date p)")
  from counter_of_get [OF g, of team_id "css_date p"] have "k = counter_of st team_id (css_date p) + 1"
    by simp
  with n w g show ?thesis
    by (auto simp: champ_select_start_def Let_def write_lands_def)
qed

lemma upstream_error_state:
  assumes "handle st team_id ev e = (JSONError 502 message, calls, st1)"
  shows "((\<exists>p. ev = StreamReady p) \<longrightarrow> st1 = st)
     \<and> (\<forall>p. ev = ChampSelectStart p \<longrightarrow>
           draft_cache st team_id = None
           \<and> st1 = st\<lparr>game_counters :=
                        snd (get_game_counter (game_counters st) team_id (css_date p))\<rparr>)
     \<and> (\<not> is_start ev \<and> (\<forall>p. ev \<noteq> StreamReady p) \<longrightarrow>
           (\<exists>cache. draft_cache st team_id = Some cache
              \<and> st1 = st\<lparr>draft_cache := (draft_cache st)(team_id \<mapsto>
                     cache\<lparr>row_data := update_row_data (row_data cache) (merged_fields ev)\<rparr>)\<rparr>))
     \<and> (\<not> is_start ev \<longrightarrow> (\<forall>e'. handle st1 team_id ev e' = handle st team_id ev e'))
     \<and> (\<forall>p e'. ev = ChampSelectStart p \<and> write_lands e' \<longrightarrow>
           fst (handle st team_id ev e') =
             GameSessionResponse None (Some (env_game_id e'))
               (Some (counter_of st team_id (css_date p) + 1))
           \<and> fst (handle st1 team_id ev e') =
               GameSessionResponse None (Some (env_game_id e'))
                 (Some (counter_of st team_id (css_date p) + 2)))"
proof (cases ev)
  case (Heartbeat p)
  with assms show ?thesis by (simp add: client_heartbeat_def split: option.splits)
next
  case (ChampSelectStart p)
  with assms have h: "champ_select_start st team_id p e = (JSONError 502 message, calls, st1)"
    by simp
  obtain n counters1 where g: "get_game_counter (game_counters st) team_id (css_date p) = (n, counters1)"
    by (cases "get_game_counter (game_counters st) team_id (css_date p)")
  from champ_select_start_502 [OF h] g have none: "draft_cache st team_id = None"
    and st1: "st1 = st\<lparr>game_counters := counters1\<rparr>" by simp_all
  from none st1 have none1: "draft_cache st1 team_id = None" by simp
  from counter_of_get [OF g, of team_id "css_date p"] st1
  have c1: "counter_of st1 team_id (css_date p) = counter_of st team_id (css_date p) + 1" by simp
  have "fst (champ_select_start st team_id p e') =
             GameSessionResponse None (Some (env_game_id e'))
               (Some (counter_of st team_id (css_date p) + 1))
           \<and> fst (champ_select_start st1 team_id p e') =
               GameSessionResponse None (Some (env_game_id e'))
                 (Some (counter_of st team_id (css_date p) + 2))" if "write_lands e'" for e'
    using champ_select_start_lands [OF none that, of p] champ_select_start_lands [OF none1 that, of p] c1
    by simp
  with none st1 g ChampSelectStart show ?thesis by simp
next
  case (DraftComplete p)
  with assms have h: "draft_complete st team_id p e = (JSONError 502 message, calls, st1)"
    by simp
  from draft_complete_502 [OF h] obtain cache where c: "draft_cache st team_id = Some cache"
    "game_id cache = dc_game_id p" "draft_count cache < draft_richness (dc_draft p)"
    and st1: "st1 = st\<lparr>draft_cache := (draft_cache st)(team_id \<mapsto>
                 cache\<lparr>row_data := update_row_data (row_data cache) (dc_draft p)\<rparr>)\<rparr>"
    by blast
  have "\<forall>e'. draft_complete st1 team_id p e' = draft_complete st team_id p e'"
    unfolding st1 using draft_complete_again [OF c] by blast
  with c(1) st1 DraftComplete show ?thesis by simp
next
  case (GameStart p)
  with assms have h: "game_start st team_id p e = (JSONError 502 message, calls, st1)"
    by simp
  from game_start_502 [OF h] obtain cache where c: "draft_cache st team_id = Some cache"
    "game_id cache = gs_game_id p"
    "dedupe_key [team_id, ''game_start'', gs_game_id p] \<notin> event_dedupe st"
    and st1: "st1 = st\<lparr>draft_cache := (draft_cache st)(team_id \<mapsto>
                 cache\<lparr>row_data := update_row_data (row_data cache)
                    (filter (\<lambda>(key, value). key \<in> POSITION_COLUMNS) (gs_positions p))\<rparr>)\<rparr>"
    by blast
  have "\<forall>e'. game_start st1 team_id p e' = game_start st team_id p e'"
    unfolding st1 using game_start_again [OF c] by blast
  with c(1) st1 GameStart show ?thesis by simp
next
  case (GameFinished p)
  with assms have h: "game_finished st team_id p e = (JSONError 502 message, calls, st1)"
    by simp
  from game_finished_502 [OF h] obtain cache where c: "draft_cache st team_id = Some cache"
    "game_id cache = gf_game_id p"
    "dedupe_key [team_id, ''game_finished'', gf_game_id p] \<notin> event_dedupe st"
    and st1: "st1 = st\<lparr>draft_cache := (draft_cache st)(team_id \<mapsto>
                 cache\<lparr>row_data := update_row_data (row_data cache) [(''win'', gf_win p)]\<rparr>)\<rparr>"
    by blast
  have "\<forall>e'. game_finished st1 team_id p e' = game_finished st team_id p e'"
    unfolding st1 using game_finished_again [OF c] by blast
  with c(1) st1 GameFinished show ?thesis by (simp del: update_row_data.simps)
next
  case (StreamReady p)
  with assms have h: "stream_ready st team_id p e = (JSONError 502 message, calls, st1)"
    by simp
  from stream_ready_502 [OF h] StreamReady show ?thesis by simp
qed

subsection \<open>Sessions\<close>

lemma handle_no_session:
  "draft_cache st t = None \<Longrightarrow> \<not> (team_id = t \<and> is_start ev) \<Longrightarrow>
   draft_cache (snd (snd (handle st team_id ev e))) t = None"
  by (cases ev)
     (auto simp: client_heartbeat_def champ_select_start_def draft_complete_def game_start_def
        game_finished_def stream_ready_def Let_def split: option.splits prod.splits)

lemma handle_all_no_session:
  "draft_cache st t = None \<Longrightarrow> \<forall>(team_id, ev, e) \<in> set evs. \<not> (team_id = t \<and> is_start ev) \<Longrightarrow>
   draft_cache (snd (handle_all st evs)) t = None"
proof (induction st evs rule: handle_all.induct)
  case (1 st)
  then show ?case by simp
next
  case (2 st team_id ev e rest)
  obtain r calls st1 where h: "handle st team_id ev e = (r, calls, st1)"
    by (metis prod_cases3)
  from 2(2,3) handle_no_session [of st t team_id ev e] h have "draft_cache st1 t = None"
    by auto
  with 2(1) [OF h [symmetric]] 2(3) h show ?case
    by (auto split: prod.splits)
qed

lemma game_finished_Ack:
  "game_finished st team_id payload e = (Ack, calls, st1) \<Longrightarrow>
   (\<exists>cache. draft_cache st team_id = Some cache \<and> game_id cache = gf_game_id payload)
   \<and> draft_cache st1 = (draft_cache st)(team_id := None)"
  by (auto simp: game_finished_def Let_def split: option.splits if_splits)

lemma client_heartbeat_none:
  "draft_cache st t = None \<Longrightarrow>
   client_heartbeat st t hb = (GameSessionResponse (Some ''no ongoing game'') None None, [], st)"
  by (simp add: client_heartbeat_def)

lemma client_heartbeat_pure: "snd (client_heartbeat st t hb) = ([], st)"
  by (simp add: client_heartbeat_def split: option.splits)

lemma handle_draft_count:
  assumes "draft_cache st t = Some cache" and "handle st team_id ev e = (r, calls, st1)"
    and "draft_cache st1 t = Some cache1"
  shows "draft_count cache \<le> draft_count cache1
         \<and> (draft_count cache1 \<noteq> draft_count cache \<longrightarrow>
              (\<exists>p. ev = DraftComplete p \<and> team_id = t
                   \<and> draft_count cache < draft_richness (dc_draft p)
                   \<and> draft_count cache1 = draft_richness (dc_draft p)))"
proof (cases ev)
  case (Heartbeat p)
  with assms show ?thesis by (auto simp: client_heartbeat_def split: option.splits)
next
  case (ChampSelectStart p)
  with assms show ?thesis
    by (cases "team_id = t")
       (auto simp: champ_select_start_def Let_def split: option.splits prod.splits if_splits)
next
  case (DraftComplete p)
  with assms show ?thesis
    by (cases "team_id = t")
       (auto simp: draft_complete_def Let_def split: option.splits if_splits)
next
  case (GameStart p)
  with assms show ?thesis
    by (cases "team_id = t")
       (auto simp: game_start_def Let_def split: option.splits if_splits)
next
  case (GameFinished p)
  with assms show ?thesis
    by (cases "team_id = t")
       (auto simp: game_finished_def Let_def split: option.splits if_splits)
next
  case (StreamReady p)
  with assms show ?thesis by (auto simp: stream_ready_def Let_def split: if_splits)
qed


text \<open>
  What a 502 leaves untouched, and that the same request with a write that lands is then
  answered with status 200.
\<close>

lemma upstream_error_keeps:
  assumes "handle st team_id ev e = (JSONError 502 message, calls, st1)"
  shows "event_dedupe st1 = event_dedupe st
     \<and> auth_config st1 = auth_config st
     \<and> (\<forall>t. map_option session_core (draft_cache st1 t) = map_option session_core (draft_cache st t))
     \<and> (\<forall>t. t \<noteq> team_id \<longrightarrow> draft_cache st1 t = draft_cache st t)
     \<and> (\<forall>t d. counter_of st1 t d =
               counter_of st t d
               + (if \<exists>p. ev = ChampSelectStart p \<and> t = team_id \<and> d = css_date p then 1 else 0))
     \<and> (is_start ev \<longrightarrow> draft_cache st1 = draft_cache st)
     \<and> (\<not> is_start ev \<longrightarrow> game_counters st1 = game_counters st)
     \<and> ((\<exists>p. ev = StreamReady p) \<longrightarrow> st1 = st)
     \<and> (\<forall>e'. write_lands e' \<longrightarrow> status_code (fst (handle st1 team_id ev e')) = 200)"
proof (cases ev)
  case (Heartbeat p)
  with assms show ?thesis by (simp add: client_heartbeat_def split: option.splits)
next
  case (ChampSelectStart p)
  with assms have h: "champ_select_start st team_id p e = (JSONError 502 message, calls, st1)"
    by simp
  obtain n counters1 where g: "get_game_counter (game_counters st) team_id (css_date p) = (n, counters1)"
    by (cases "get_game_counter (game_counters st) team_id (css_date p)")
  from champ_select_start_502 [OF h] g have none: "draft_cache st team_id = None"
    and st1: "st1 = st\<lparr>game_counters := counters1\<rparr>" by simp_all
  from none st1 have "draft_cache st1 team_id = None" by simp
  then have retry: "\<forall>e'. write_lands e' \<longrightarrow> status_code (fst (handle st1 team_id ev e')) = 200"
    using ChampSelectStart by (simp add: champ_select_start_retry)
  have "\<forall>t d. counter_of st1 t d =
               counter_of st t d
               + (if \<exists>q. ev = ChampSelectStart q \<and> t = team_id \<and> d = css_date q then 1 else 0)"
    using counter_of_get [OF g] st1 ChampSelectStart by simp
  with retry st1 ChampSelectStart show ?thesis by simp
next
  case (DraftComplete p)
  with assms have h: "draft_complete st team_id p e = (JSONError 502 message, calls, st1)"
    by simp
  from draft_complete_502 [OF h] obtain cache where c: "draft_cache st team_id = Some cache"
    "game_id cache = dc_game_id p"
    and st1: "st1 = st\<lparr>draft_cache := (draft_cache st)(team_id \<mapsto>
                 cache\<lparr>row_data := update_row_data (row_data cache) (dc_draft p)\<rparr>)\<rparr>"
    by blast
  have "\<forall>e'. write_lands e' \<longrightarrow> status_code (fst (handle st1 team_id ev e')) = 200"
    using DraftComplete st1 c
    by (simp add: draft_complete_retry [where cache = "cache\<lparr>row_data := update_row_data (row_data cache) (dc_draft p)\<rparr>"])
  with st1 c DraftComplete show ?thesis by (simp add: session_core_def counter_of_def)
next
  case (GameStart p)
  with assms have h: "game_start st team_id p e = (JSONError 502 message, calls, st1)"
    by simp
  from game_start_502 [OF h] obtain cache where c: "draft_cache st team_id = Some cache"
    "game_id cache = gs_game_id p"
    "dedupe_key [team_id, ''game_start'', gs_game_id p] \<notin> event_dedupe st"
    and st1: "st1 = st\<lparr>draft_cache := (draft_cache st)(team_id \<mapsto>
                 cache\<lparr>row_data := update_row_data (row_data cache)
                    (filter (\<lambda>(key, value). key \<in> POSITION_COLUMNS) (gs_positions p))\<rparr>)\<rparr>"
    by blast
  have "\<forall>e'. write_lands e' \<longrightarrow> status_code (fst (handle st1 team_id ev e')) = 200"
    using GameStart st1 c
    by (simp add: game_start_retry [where cache = "cache\<lparr>row_data := update_row_data (row_data cache)
                    (filter (\<lambda>(key, value). key \<in> POSITION_COLUMNS) (gs_positions p))\<rparr>"])
  with st1 c GameStart show ?thesis by (simp add: session_core_def counter_of_def)
next
  case (GameFinished p)
  with assms have h: "game_finished st team_id p e = (JSONError 502 message, calls, st1)"
    by simp
  from game_finished_502 [OF h] obtain cache where c: "draft_cache st team_id = Some cache"
    "game_id cache = gf_game_id p"
    "dedupe_key [team_id, ''game_finished'', gf_game_id p] \<notin> event_dedupe st"
    and st1: "st1 = st\<lparr>draft_cache := (draft_cache st)(team_id \<mapsto>
                 cache\<lparr>row_data := update_row_data (row_data cache) [(''win'', gf_win p)]\<rparr>)\<rparr>"
    by blast
  have "\<forall>e'. write_lands e' \<longrightarrow> status_code (fst (handle st1 team_id ev e')) = 200"
    using GameFinished st1 c
    by (simp del: update_row_data.simps add: game_finished_retry [where cache = "cache\<lparr>row_data := update_row_data (row_data cache) [(''win'', gf_win p)]\<rparr>"])
  with st1 c GameFinished show ?thesis
    by (simp add: session_core_def counter_of_def del: update_row_data.simps)
next
  case (StreamReady p)
  with assms have h: "stream_ready st team_id p e = (JSONError 502 message, calls, st1)"
    by simp
  from stream_ready_502 [OF h] StreamReady show ?thesis
    by (simp add: stream_ready_retry)
qed

text \<open>
  C1, as the code has it. When a handler of the critical path answers 502, the state is
  what it was before the request except for what the handler does before its write:
  \<open>draft_complete\<close>, \<open>game_start\<close> and \<open>game_finished\<close> have merged the request's
  whitelisted fields (the draft, the position columns, the outcome) into the row-field
  dict of the caller's session and changed nothing else; \<open>champ_select_start\<close> has drawn
  one number from the sequence counter of its team and date and changed nothing else;
  \<open>stream_ready\<close> has changed nothing. So the dedupe set and the credential store are
  what they were, no session has been created or removed, every session keeps its game
  id, draft counter, row locator, game number and date, the sessions of other teams are
  untouched, and every other counter is what it was. The same request sent again to
  \<open>draft_complete\<close>, \<open>game_start\<close>, \<open>game_finished\<close> or \<open>stream_ready\<close> behaves exactly as
  a first attempt: the same answer, the same adapter calls and the same resulting state,
  whatever the environment. Sent again to \<open>champ_select_start\<close> with a write that lands,
  it opens the session as a first attempt would, with the next game number.
\<close>

theorem upstream_error_commits:
  assumes "handle st team_id ev e = (JSONError 502 message, calls, st1)"
  shows "(((\<exists>p. ev = StreamReady p) \<longrightarrow> st1 = st)
     \<and> (\<forall>p. ev = ChampSelectStart p \<longrightarrow>
           draft_cache st team_id = None
           \<and> st1 = st\<lparr>game_counters :=
                        snd (get_game_counter (game_counters st) team_id (css_date p))\<rparr>)
     \<and> (\<not> is_start ev \<and> (\<forall>p. ev \<noteq> StreamReady p) \<longrightarrow>
           (\<exists>cache. draft_cache st team_id = Some cache
              \<and> st1 = st\<lparr>draft_cache := (draft_cache st)(team_id \<mapsto>
                     cache\<lparr>row_data := update_row_data (row_data cache) (merged_fields ev)\<rparr>)\<rparr>))
     \<and> (\<not> is_start ev \<longrightarrow> (\<forall>e'. handle st1 team_id ev e' = handle st team_id ev e'))
     \<and> (\<forall>p e'. ev = ChampSelectStart p \<and> write_lands e' \<longrightarrow>
           fst (handle st team_id ev e') =
             GameSessionResponse None (Some (env_game_id e'))
               (Some (counter_of st team_id (css_date p) + 1))
           \<and> fst (handle st1 team_id ev e') =
               GameSessionResponse None (Some (env_game_id e'))
                 (Some (counter_of st team_id (css_date p) + 2))))
     \<and> (event_dedupe st1 = event_dedupe st
     \<and> auth_config st1 = auth_config st
     \<and> (\<forall>t. map_option session_core (draft_cache st1 t) = map_option session_core (draft_cache st t))
     \<and> (\<forall>t. t \<noteq> team_id \<longrightarrow> draft_cache st1 t = draft_cache st t)
     \<and> (\<forall>t d. counter_of st1 t d =
               counter_of st t d
               + (if \<exists>p. ev = ChampSelectStart p \<and> t = team_id \<and> d = css_date p then 1 else 0))
     \<and> (is_start ev \<longrightarrow> draft_cache st1 = draft_cache st)
     \<and> (\<not> is_start ev \<longrightarrow> game_counters st1 = game_counters st)
     \<and> ((\<exists>p. ev = StreamReady p) \<longrightarrow> st1 = st)
     \<and> (\<forall>e'. write_lands e' \<longrightarrow> status_code (fst (handle st1 team_id ev e')) = 200))"
  using upstream_error_state [OF assms] upstream_error_keeps [OF assms] by (rule conjI)

theorem upstream_error_commits_witness:
  "fst (handle active_state ''KC'' (GameStart example_positions) env_failing)
     = JSONError 502 ''failed to update game row in sheets''
   \<and> snd (snd (handle active_state ''KC'' (GameStart example_positions) env_failing))
       = active_state\<lparr>draft_cache := (draft_cache active_state)(''KC'' \<mapsto>
           example_session\<lparr>row_data := update_row_data (row_data example_session)
             (merged_fields (GameStart example_positions))\<rparr>)\<rparr>
   \<and> handle (snd (snd (handle active_state ''KC'' (GameStart example_positions) env_failing)))
        ''KC'' (GameStart example_positions) env_writing
       = handle active_state ''KC'' (GameStart example_positions) env_writing
   \<and> event_dedupe (snd (snd (handle active_state ''KC'' (GameStart example_positions) env_failing)))
       = event_dedupe active_state"
proof -
  obtain calls st1 where h: "handle active_state ''KC'' (GameStart example_positions) env_failing =
      (JSONError 502 ''failed to update game row in sheets'', calls, st1)"
    by (simp add: example_defs eval_defs)
  note facts = upstream_error_commits [OF h]
  note state = facts [THEN conjunct1]
  have s: "draft_cache active_state ''KC'' = Some example_session"
    by (simp add: active_state_def)
  have g: "\<not> is_start (GameStart example_positions)
      \<and> (\<forall>p. GameStart example_positions \<noteq> StreamReady p)" by simp
  from state [THEN conjunct2, THEN conjunct2, THEN conjunct1, rule_format, OF g] s
  have a: "st1 = active_state\<lparr>draft_cache := (draft_cache active_state)(''KC'' \<mapsto>
           example_session\<lparr>row_data := update_row_data (row_data example_session)
             (merged_fields (GameStart example_positions))\<rparr>)\<rparr>"
    by (auto simp del: merged_fields.simps)
  from state [THEN conjunct2, THEN conjunct2, THEN conjunct2, THEN conjunct1, rule_format,
              OF g [THEN conjunct1], of env_writing]
  have b: "handle st1 ''KC'' (GameStart example_positions) env_writing
      = handle active_state ''KC'' (GameStart example_positions) env_writing" .
  from facts [THEN conjunct2, THEN conjunct1]
  have c: "event_dedupe st1 = event_dedupe active_state" .
  from h have d: "fst (handle active_state ''KC'' (GameStart example_positions) env_failing)
      = JSONError 502 ''failed to update game row in sheets''"
    and e: "snd (snd (handle active_state ''KC'' (GameStart example_positions) env_failing)) = st1"
    by (simp_all del: handle.simps)
  show ?thesis unfolding e using a b c d by (simp only: simp_thms)
qed

text \<open>
  C1 as the claim words it fails: after the 502 of \<open>draft_complete\<close> the session's
  row-field dict holds the submitted pick, and after the 502 of \<open>champ_select_start\<close> the
  sequence counter of the team and date has gone from 0 to 1.
\<close>

theorem upstream_error_state_counterexample:
  "fst (draft_complete active_state ''KC'' example_draft env_failing)
     = JSONError 502 ''failed to update game row in sheets''
   \<and> map_of (row_data (the (draft_cache active_state ''KC''))) ''BP1'' = None
   \<and> map_of (row_data (the (draft_cache
        (snd (snd (draft_complete active_state ''KC'' example_draft env_failing))) ''KC''))) ''BP1''
       = Some ''Maokai''
   \<and> fst (champ_select_start initial_state ''KC'' example_start env_failing)
       = JSONError 502 ''failed to write game row to sheets''
   \<and> counter_of initial_state ''KC'' ''2026-01-07'' = 0
   \<and> counter_of (snd (snd (champ_select_start initial_state ''KC'' example_start env_failing)))
        ''KC'' ''2026-01-07'' = 1"
  by (simp add: example_defs eval_defs)


text \<open>
  C4. For a team with a session, a \<open>draft_complete\<close> whose count of non-empty draft
  values is at most the session's \<open>draft_count\<close> makes no adapter call and leaves the
  whole state (so the row-field dict and the counter) as it was. Across any one handler
  call by any team, the session's \<open>draft_count\<close> never decreases, and it changes only when
  the call is a \<open>draft_complete\<close> of that team whose count is strictly greater, and then to
  that count.
\<close>

theorem draft_complete_monotonic:
  assumes "draft_cache st team_id = Some cache"
  shows "(draft_richness (dc_draft payload) \<le> draft_count cache \<longrightarrow>
            snd (draft_complete st team_id payload e) = ([], st))
         \<and> (\<forall>caller ev e1 r calls st1 cache1.
               handle st caller ev e1 = (r, calls, st1) \<and> draft_cache st1 team_id = Some cache1 \<longrightarrow>
               draft_count cache \<le> draft_count cache1
               \<and> (draft_count cache1 \<noteq> draft_count cache \<longrightarrow>
                    (\<exists>p. ev = DraftComplete p \<and> caller = team_id
                         \<and> draft_count cache < draft_richness (dc_draft p)
                         \<and> draft_count cache1 = draft_richness (dc_draft p))))"
proof (intro conjI impI allI)
  assume "draft_richness (dc_draft payload) \<le> draft_count cache"
  with assms show "snd (draft_complete st team_id payload e) = ([], st)"
    by (simp add: draft_complete_def Let_def)
next
  fix caller ev e1 r calls st1 cache1
  assume h: "handle st caller ev e1 = (r, calls, st1) \<and> draft_cache st1 team_id = Some cache1"
  from handle_draft_count [OF assms, of caller ev e1 r calls st1 cache1] h
  show "draft_count cache \<le> draft_count cache1" by blast
  assume "draft_count cache1 \<noteq> draft_count cache"
  with handle_draft_count [OF assms, of caller ev e1 r calls st1 cache1] h
  show "\<exists>p. ev = DraftComplete p \<and> caller = team_id
            \<and> draft_count cache < draft_richness (dc_draft p)
            \<and> draft_count cache1 = draft_richness (dc_draft p)" by blast
qed

theorem draft_complete_monotonic_witness:
  "draft_cache active_state ''KC'' = Some example_session
   \<and> draft_richness (dc_draft stale_draft) \<le> draft_count example_session
   \<and> snd (draft_complete active_state ''KC'' stale_draft env_writing) = ([], active_state)
   \<and> map_option draft_count
        (draft_cache (snd (snd (handle active_state ''KC'' (DraftComplete example_draft) env_writing))) ''KC'')
       = Some (draft_richness (dc_draft example_draft))
   \<and> draft_count example_session < draft_richness (dc_draft example_draft)"
proof -
  have h: "draft_cache active_state ''KC'' = Some example_session"
    by (simp add: active_state_def)
  have r: "draft_richness (dc_draft stale_draft) \<le> draft_count example_session"
    by (simp add: draft_richness_def stale_draft_def example_session_def)
  note facts = draft_complete_monotonic [OF h, of stale_draft env_writing]
  from facts r have a: "snd (draft_complete active_state ''KC'' stale_draft env_writing) = ([], active_state)"
    by blast
  obtain r1 calls st1 cache1 where
    s: "handle active_state ''KC'' (DraftComplete example_draft) env_writing = (r1, calls, st1)"
    and c: "draft_cache st1 ''KC'' = Some cache1" and n: "draft_count cache1 \<noteq> draft_count example_session"
    by (simp add: example_defs eval_defs)
  from facts s c n obtain p where "DraftComplete example_draft = DraftComplete p"
    "draft_count example_session < draft_richness (dc_draft p)"
    "draft_count cache1 = draft_richness (dc_draft p)"
    by blast
  then have b: "draft_count example_session < draft_richness (dc_draft example_draft)"
    "draft_count cache1 = draft_richness (dc_draft example_draft)" by simp_all
  from s have d: "snd (snd (handle active_state ''KC'' (DraftComplete example_draft) env_writing)) = st1"
    by (simp del: handle.simps)
  show ?thesis unfolding d using h r a b c by simp
qed


text \<open>
  C9. A \<open>game_finished\<close> that answers \<open>Ack\<close> had a session with the submitted game id and
  removes it; from then on, through any handler calls in which the team does not start a
  new draft, a heartbeat of the team answers "no ongoing game". A heartbeat makes no
  adapter call and returns the state it was given, and with no session it answers
  "no ongoing game" (status 200).
\<close>

theorem game_finished_then_heartbeat:
  "(game_finished st team_id payload e = (Ack, calls, st1) \<longrightarrow>
      (\<exists>cache. draft_cache st team_id = Some cache \<and> game_id cache = gf_game_id payload)
      \<and> draft_cache st1 team_id = None
      \<and> (\<forall>evs hb. (\<forall>(caller, ev, e') \<in> set evs. \<not> (caller = team_id \<and> is_start ev)) \<longrightarrow>
            client_heartbeat (snd (handle_all st1 evs)) team_id hb =
              (GameSessionResponse (Some ''no ongoing game'') None None, [],
               snd (handle_all st1 evs))))
   \<and> snd (client_heartbeat st0 t hb0) = ([], st0)
   \<and> (draft_cache st0 t = None \<longrightarrow>
        fst (client_heartbeat st0 t hb0) = GameSessionResponse (Some ''no ongoing game'') None None)"
proof (intro conjI impI allI)
  assume a: "game_finished st team_id payload e = (Ack, calls, st1)"
  from game_finished_Ack [OF a]
  show "\<exists>cache. draft_cache st team_id = Some cache \<and> game_id cache = gf_game_id payload"
    and n: "draft_cache st1 team_id = None" by simp_all
  fix evs :: "(string \<times> event \<times> env) list" and hb
  assume "\<forall>(caller, ev, e') \<in> set evs. \<not> (caller = team_id \<and> is_start ev)"
  with n have "draft_cache (snd (handle_all st1 evs)) team_id = None"
    by (rule handle_all_no_session)
  then show "client_heartbeat (snd (handle_all st1 evs)) team_id hb =
              (GameSessionResponse (Some ''no ongoing game'') None None, [],
               snd (handle_all st1 evs))"
    by (rule client_heartbeat_none)
next
  show "snd (client_heartbeat st0 t hb0) = ([], st0)" by (rule client_heartbeat_pure)
next
  assume "draft_cache st0 t = None"
  then show "fst (client_heartbeat st0 t hb0) = GameSessionResponse (Some ''no ongoing game'') None None"
    by (simp add: client_heartbeat_none)
qed

theorem game_finished_then_heartbeat_witness:
  "fst (game_finished active_state ''KC'' example_finish env_writing) = Ack
   \<and> fst (client_heartbeat active_state ''KC'' example_heartbeat)
       = GameSessionResponse None (Some ''g_test'') (Some 1)
   \<and> fst (client_heartbeat
        (snd (handle_all (snd (snd (game_finished active_state ''KC'' example_finish env_writing)))
                [(''KC'', Heartbeat example_heartbeat, env_writing)]))
        ''KC'' example_heartbeat)
       = GameSessionResponse (Some ''no ongoing game'') None None"
proof -
  obtain calls st1 where h: "game_finished active_state ''KC'' example_finish env_writing = (Ack, calls, st1)"
    by (simp add: example_defs eval_defs)
  have q: "\<forall>(caller, ev, e') \<in> set [(''KC'', Heartbeat example_heartbeat, env_writing)].
      \<not> (caller = ''KC'' \<and> is_start ev)" by simp
  from game_finished_then_heartbeat [of active_state "''KC''" example_finish env_writing calls st1] h
  have "\<forall>evs hb. (\<forall>(caller, ev, e') \<in> set evs. \<not> (caller = ''KC'' \<and> is_start ev)) \<longrightarrow>
            client_heartbeat (snd (handle_all st1 evs)) ''KC'' hb =
              (GameSessionResponse (Some ''no ongoing game'') None None, [],
               snd (handle_all st1 evs))"
    by blast
  with q have a: "client_heartbeat (snd (handle_all st1 [(''KC'', Heartbeat example_heartbeat, env_writing)]))
      ''KC'' example_heartbeat =
      (GameSessionResponse (Some ''no ongoing game'') None None, [],
       snd (handle_all st1 [(''KC'', Heartbeat example_heartbeat, env_writing)]))"
    by blast
  have b: "fst (client_heartbeat active_state ''KC'' example_heartbeat)
       = GameSessionResponse None (Some ''g_test'') (Some 1)"
    by (simp add: example_defs client_heartbeat_def)
  from h have c: "fst (game_finished active_state ''KC'' example_finish env_writing) = Ack"
    and d: "snd (snd (game_finished active_state ''KC'' example_finish env_writing)) = st1"
    by simp_all
  show ?thesis unfolding d using a b c by (simp del: handle_all.simps)
qed

text \<open>
  C5. When the team already has a session, \<open>champ_select_start\<close> answers with that
  session's game id and game number and the message "game already active", makes no
  adapter call and returns the state as it was (no new session, no counter drawn); so
  does every further such call, whatever its body and environment.
\<close>

theorem champ_select_start_active:
  assumes "draft_cache st team_id = Some cache"
  shows "champ_select_start st team_id payload e =
           (GameSessionResponse (Some ''game already active'') (Some (game_id cache))
              (Some (game_number cache)), [], st)
         \<and> handle_all st (map (\<lambda>(p, e'). (team_id, ChampSelectStart p, e')) again) =
             (map (\<lambda>call. (GameSessionResponse (Some ''game already active'') (Some (game_id cache))
                              (Some (game_number cache)), [])) again, st)"
proof -
  have one: "\<And>p e'. champ_select_start st team_id p e' =
           (GameSessionResponse (Some ''game already active'') (Some (game_id cache))
              (Some (game_number cache)), [], st)"
    using assms by (simp add: champ_select_start_def)
  have "handle_all st (map (\<lambda>(p, e'). (team_id, ChampSelectStart p, e')) again) =
             (map (\<lambda>call. (GameSessionResponse (Some ''game already active'') (Some (game_id cache))
                              (Some (game_number cache)), [])) again, st)"
    by (induction again) (auto simp: one)
  with one show ?thesis by simp
qed

theorem champ_select_start_active_witness:
  "draft_cache active_state ''KC'' = Some example_session
   \<and> champ_select_start active_state ''KC'' example_start env_writing =
       (GameSessionResponse (Some ''game already active'') (Some ''g_test'') (Some 1), [], active_state)
   \<and> counter_of (snd (snd (champ_select_start active_state ''KC'' example_start env_writing)))
        ''KC'' ''2026-01-07'' = counter_of active_state ''KC'' ''2026-01-07''"
proof -
  have h: "draft_cache active_state ''KC'' = Some example_session"
    by (simp add: active_state_def)
  from champ_select_start_active [OF h, of example_start env_writing "[]"]
  have "champ_select_start active_state ''KC'' example_start env_writing =
       (GameSessionResponse (Some ''game already active'') (Some ''g_test'') (Some 1), [], active_state)"
    by (simp add: example_session_def)
  with h show ?thesis by simp
qed

text \<open>
  C10. \<open>stream_ready\<close> does not look at the session table: with a dedupe key that is not
  yet in the set and a write that does not fail it answers \<open>Ack\<close>, calls
  \<open>append_stream_event\<close> and adds the key, whatever the game id; its status is never 400;
  and its answer and its adapter calls are the same whatever sessions exist.
\<close>

theorem stream_ready_no_session_check:
  "(dedupe_key [team_id, ''stream_ready'', sr_game_id payload, role_value (sr_role payload)]
        \<notin> event_dedupe st
      \<and> \<not> (env_enabled e \<and> env_append e = None) \<longrightarrow>
      (\<exists>calls. stream_ready st team_id payload e =
         (Ack, calls,
          st\<lparr>event_dedupe :=
               insert (dedupe_key [team_id, ''stream_ready'', sr_game_id payload,
                                   role_value (sr_role payload)]) (event_dedupe st)\<rparr>)
         \<and> AppendStreamEvent team_id ''stream_ready'' (sr_game_id payload)
              (role_value (sr_role payload)) (sr_vod_url payload)
              (platform_value (sr_platform payload)) (sr_player_id payload) \<in> set calls))
   \<and> status_code (fst (stream_ready st team_id payload e)) \<noteq> 400
   \<and> fst (stream_ready (st\<lparr>draft_cache := sessions\<rparr>) team_id payload e)
       = fst (stream_ready st team_id payload e)
   \<and> fst (snd (stream_ready (st\<lparr>draft_cache := sessions\<rparr>) team_id payload e))
       = fst (snd (stream_ready st team_id payload e))"
  by (simp add: stream_ready_def Let_def)

theorem stream_ready_no_session_check_witness:
  "draft_cache initial_state ''KC'' = None
   \<and> \<not> (env_enabled env_writing \<and> env_append env_writing = None)
   \<and> fst (stream_ready initial_state ''KC'' example_stream env_writing) = Ack
   \<and> event_dedupe (snd (snd (stream_ready initial_state ''KC'' example_stream env_writing)))
       = {''KC|stream_ready|g_unknown|MID''}"
proof -
  have k: "dedupe_key [''KC'', ''stream_ready'', sr_game_id example_stream, role_value (sr_role example_stream)]
      = ''KC|stream_ready|g_unknown|MID''"
    by (simp add: dedupe_key_def example_stream_def)
  have f: "''KC|stream_ready|g_unknown|MID'' \<notin> event_dedupe initial_state"
    and w: "\<not> (env_enabled env_writing \<and> env_append env_writing = None)"
    and n: "draft_cache initial_state ''KC'' = None"
    by (simp_all add: example_defs example_stream_def)
  from stream_ready_no_session_check [of "''KC''" example_stream initial_state env_writing] k f w
  obtain calls where "stream_ready initial_state ''KC'' example_stream env_writing =
      (Ack, calls, initial_state\<lparr>event_dedupe := insert ''KC|stream_ready|g_unknown|MID''
         (event_dedupe initial_state)\<rparr>)"
    by auto
  then have "fst (stream_ready initial_state ''KC'' example_stream env_writing) = Ack"
    and "event_dedupe (snd (snd (stream_ready initial_state ''KC'' example_stream env_writing)))
       = {''KC|stream_ready|g_unknown|MID''}"
    by (simp_all add: initial_state_def)
  with w n show ?thesis by simp
qed



subsection \<open>The sequence counter\<close>

lemma champ_select_start_drawn:
  assumes "champ_select_start st team_id p e = (r, calls, st1)"
  shows "counter_of st1 t d = counter_of st t d + int (length (drawn t d team_id (ChampSelectStart p) r))
         \<and> (drawn t d team_id (ChampSelectStart p) r = []
            \<or> drawn t d team_id (ChampSelectStart p) r = [None]
            \<or> drawn t d team_id (ChampSelectStart p) r = [Some (counter_of st t d + 1)])"
proof (cases "draft_cache st team_id")
  case (Some cache)
  with assms show ?thesis by (auto simp: champ_select_start_def)
next
  case None
  obtain n counters1 where g: "get_game_counter (game_counters st) team_id (css_date p) = (n, counters1)"
    by (cases "get_game_counter (game_counters st) team_id (css_date p)")
  from counter_of_get [OF g, of t d] have n: "n = counter_of st team_id (css_date p) + 1"
    and c: "counter_of (st\<lparr>game_counters := counters1\<rparr>) t d =
       counter_of st t d + (if t = team_id \<and> d = css_date p then 1 else 0)" by simp_all
  have c': "counter_of (st\<lparr>game_counters := counters1, draft_cache := m\<rparr>) t d =
       counter_of st t d + (if t = team_id \<and> d = css_date p then 1 else 0)" for m
    using c by (simp add: counter_of_def)
  from assms None g n c c' show ?thesis
    by (auto simp: champ_select_start_def Let_def split: if_splits)
qed

lemma handle_drawn:
  assumes "handle st team_id ev e = (r, calls, st1)"
  shows "counter_of st1 t d = counter_of st t d + int (length (drawn t d team_id ev r))
         \<and> (drawn t d team_id ev r = [] \<or> drawn t d team_id ev r = [None]
            \<or> drawn t d team_id ev r = [Some (counter_of st t d + 1)])"
proof (cases ev)
  case (Heartbeat p)
  with assms show ?thesis by (auto simp: client_heartbeat_def counter_of_def split: option.splits)
next
  case (ChampSelectStart p)
  with assms champ_select_start_drawn [of st team_id p e r calls st1 t d] show ?thesis by simp
next
  case (DraftComplete p)
  with assms show ?thesis
    by (auto simp: draft_complete_def Let_def counter_of_def split: option.splits if_splits)
next
  case (GameStart p)
  with assms show ?thesis
    by (auto simp: game_start_def Let_def counter_of_def split: option.splits if_splits)
next
  case (GameFinished p)
  with assms show ?thesis
    by (auto simp: game_finished_def Let_def counter_of_def split: option.splits if_splits)
next
  case (StreamReady p)
  with assms show ?thesis
    by (auto simp: stream_ready_def Let_def counter_of_def split: if_splits)
qed

lemma start_numbers_nth:
  "k < length (start_numbers t d st evs) \<Longrightarrow> start_numbers t d st evs ! k = Some n \<Longrightarrow>
   n = counter_of st t d + int k + 1"
proof (induction t d st evs arbitrary: k rule: start_numbers.induct)
  case (1 t d st)
  then show ?case by simp
next
  case (2 t d st team_id ev e rest)
  obtain r calls st1 where h: "handle st team_id ev e = (r, calls, st1)"
    by (metis prod_cases3)
  note IH = 2(1) [OF h [symmetric] refl]
  from handle_drawn [OF h, of t d]
  have c: "counter_of st1 t d = counter_of st t d + int (length (drawn t d team_id ev r))"
    and shape: "drawn t d team_id ev r = [] \<or> drawn t d team_id ev r = [None]
            \<or> drawn t d team_id ev r = [Some (counter_of st t d + 1)]" by simp_all
  from shape show ?case
  proof (elim disjE)
    assume e: "drawn t d team_id ev r = []"
    with 2(2,3) h IH [of k] c show ?thesis by simp
  next
    assume e: "drawn t d team_id ev r = [None]"
    show ?thesis
    proof (cases k)
      case 0
      with 2(3) h e show ?thesis by simp
    next
      case (Suc j)
      with 2(2,3) h e IH [of j] c show ?thesis by simp
    qed
  next
    assume e: "drawn t d team_id ev r = [Some (counter_of st t d + 1)]"
    show ?thesis
    proof (cases k)
      case 0
      with 2(3) h e show ?thesis by simp
    next
      case (Suc j)
      with 2(2,3) h e IH [of j] c show ?thesis by simp
    qed
  qed
qed

lemma champ_select_start_created:
  "champ_select_start st team_id p e = (GameSessionResponse None gid (Some n), calls, st1) \<Longrightarrow>
   draft_cache st team_id = None \<and> map_option game_number (draft_cache st1 team_id) = Some n
   \<and> map_option game_id (draft_cache st1 team_id) = gid"
  by (auto simp: champ_select_start_def Let_def split: option.splits if_splits prod.splits)


text \<open>
  C6, as the code has it. Take any sequence of handler calls. The calls of
  \<open>champ_select_start\<close> for team \<open>t\<close> and date \<open>d\<close> that find no session active each draw
  a number, whether the row write then lands (a session is created with that number) or
  fails (the answer is 502 and the number is spent): the \<open>k\<close>-th of them, counting from
  1, draws the counter's starting value plus \<open>k\<close>, so 1, 2, 3, ... from an empty table.
  Every other call (another team, another date, another endpoint) leaves the counter of
  \<open>(t, d)\<close> as it was, and a created session holds the number that was answered.
\<close>

theorem start_numbers_sequence:
  "(\<forall>k n. k < length (start_numbers t d st evs) \<and> start_numbers t d st evs ! k = Some n \<longrightarrow>
           n = counter_of st t d + int k + 1)
   \<and> (\<forall>caller ev e. \<not> (\<exists>p. ev = ChampSelectStart p \<and> caller = t \<and> css_date p = d) \<longrightarrow>
         counter_of (snd (snd (handle st caller ev e))) t d = counter_of st t d)
   \<and> (\<forall>p e gid n calls st1.
         champ_select_start st t p e = (GameSessionResponse None gid (Some n), calls, st1) \<longrightarrow>
         draft_cache st t = None \<and> map_option game_number (draft_cache st1 t) = Some n)"
proof (intro conjI allI impI)
  fix k n
  assume "k < length (start_numbers t d st evs) \<and> start_numbers t d st evs ! k = Some n"
  then show "n = counter_of st t d + int k + 1" using start_numbers_nth by blast
next
  fix caller ev e
  assume a: "\<not> (\<exists>p. ev = ChampSelectStart p \<and> caller = t \<and> css_date p = d)"
  obtain r calls st1 where h: "handle st caller ev e = (r, calls, st1)"
    by (metis prod_cases3)
  have "drawn t d caller ev r = []"
    using a by (cases "(t, d, caller, ev, r)" rule: drawn.cases) auto
  with handle_drawn [OF h, of t d] h
  show "counter_of (snd (snd (handle st caller ev e))) t d = counter_of st t d" by simp
next
  fix p e gid n calls st1
  assume "champ_select_start st t p e = (GameSessionResponse None gid (Some n), calls, st1)"
  from champ_select_start_created [OF this]
  show "draft_cache st t = None" "map_option game_number (draft_cache st1 t) = Some n" by simp_all
qed

theorem start_numbers_sequence_witness:
  "counter_of initial_state ''KC'' ''2026-01-07'' = 0
   \<and> start_numbers ''KC'' ''2026-01-07'' initial_state
        [(''KC'', ChampSelectStart example_start, env_writing),
         (''KC'', GameFinished started_finish, env_writing),
         (''KC'', ChampSelectStart example_start, env_writing)] = [Some 1, Some 2]
   \<and> counter_of (snd (snd (handle initial_state ''T1'' (ChampSelectStart example_start) env_writing)))
        ''KC'' ''2026-01-07'' = 0"
proof -
  let ?run = "[(''KC'', ChampSelectStart example_start, env_writing),
         (''KC'', GameFinished started_finish, env_writing),
         (''KC'', ChampSelectStart example_start, env_writing)]"
  have c: "counter_of initial_state ''KC'' ''2026-01-07'' = 0"
    by (simp add: counter_of_def initial_state_def)
  obtain x y where s: "start_numbers ''KC'' ''2026-01-07'' initial_state ?run = [Some x, Some y]"
    by (simp add: example_defs started_finish_def eval_defs)
  note facts = start_numbers_sequence [of "''KC''" "''2026-01-07''" initial_state ?run]
  note nth = facts [THEN conjunct1, rule_format]
  note other = facts [THEN conjunct2, THEN conjunct1, rule_format]
  have "x = counter_of initial_state ''KC'' ''2026-01-07'' + int 0 + 1"
    by (rule nth) (simp only: s, simp)
  moreover have "y = counter_of initial_state ''KC'' ''2026-01-07'' + int 1 + 1"
    by (rule nth) (simp only: s, simp)
  ultimately have xy: "x = 1" "y = 2" using c by simp_all
  have "counter_of (snd (snd (handle initial_state ''T1'' (ChampSelectStart example_start) env_writing)))
        ''KC'' ''2026-01-07'' = counter_of initial_state ''KC'' ''2026-01-07''"
    by (rule other) simp
  with c s xy show ?thesis by (simp only: simp_thms)
qed

text \<open>
  C6 as the claim words it fails: from an empty counter table, a \<open>champ_select_start\<close>
  whose write fails creates no session, and the next one, the first that creates a
  session for the team and date, is given game number 2.
\<close>

theorem start_numbers_counterexample:
  "counter_of initial_state ''KC'' ''2026-01-07'' = 0
   \<and> fst (champ_select_start initial_state ''KC'' example_start env_failing)
       = JSONError 502 ''failed to write game row to sheets''
   \<and> draft_cache (snd (snd (champ_select_start initial_state ''KC'' example_start env_failing))) ''KC''
       = None
   \<and> fst (champ_select_start
        (snd (snd (champ_select_start initial_state ''KC'' example_start env_failing)))
        ''KC'' example_start env_writing)
       = GameSessionResponse None (Some ''g_20260107_1200_ab12'') (Some 2)"
  by (simp add: example_defs eval_defs)


section \<open>The authorization gate\<close>




section \<open>The event deduplicator\<close>

lemma handle_dedupe_mono: "event_dedupe st \<subseteq> event_dedupe (snd (snd (handle st team_id ev e)))"
  by (cases ev)
     (auto simp: client_heartbeat_def champ_select_start_def draft_complete_def game_start_def
        game_finished_def stream_ready_def Let_def split: option.splits prod.splits)

lemma activate_dedupe: "event_dedupe (snd (snd (activate st p e))) = event_dedupe st"
  by (auto simp: activate_def Let_def split: option.splits prod.splits)

lemma serve_dedupe_mono: "event_dedupe st \<subseteq> event_dedupe (snd (snd (serve st req e)))"
proof (cases "dispatch (auth_config st) public_paths (req_path req) (req_authorization req)")
  case (Reject code message)
  then show ?thesis by (simp add: serve_def)
next
  case (CallNext rs)
  show ?thesis
  proof (cases "req_body req")
    case (ActivationBody p)
    with CallNext show ?thesis by (simp add: serve_def route_def unrouted_def activate_dedupe)
  next
    case (EventBody ev)
    with CallNext handle_dedupe_mono show ?thesis
      by (simp add: serve_def route_def unrouted_def split: sum.splits)
  qed
qed

lemma serve_all_dedupe_mono: "event_dedupe st \<subseteq> event_dedupe (serve_all st later)"
proof (induction st later rule: serve_all.induct)
  case (1 st)
  show ?case by simp
next
  case (2 st req e rest)
  with serve_dedupe_mono [of st req e] show ?case by auto
qed

lemma handle_Ack_key:
  "handle st team_id ev e = (Ack, calls, st1) \<Longrightarrow>
   \<exists>k. event_key team_id ev = Some k \<and> k \<notin> event_dedupe st \<and> k \<in> event_dedupe st1"
  by (cases ev)
     (auto simp: client_heartbeat_def champ_select_start_def draft_complete_def game_start_def
        game_finished_def stream_ready_def Let_def split: option.splits prod.splits if_splits)

lemma handle_seen:
  "event_key team_id ev = Some k \<Longrightarrow> k \<in> event_dedupe st \<Longrightarrow>
   handle st team_id ev e =
     (if (\<exists>p. ev = StreamReady p) \<or> map_option game_id (draft_cache st team_id) = event_game_id ev
      then JSONError 409 ''duplicate event'' else JSONError 400 ''no active game for team'', [], st)"
  by (cases ev)
     (auto simp: game_start_def game_finished_def stream_ready_def Let_def split: option.splits)


text \<open>
  What holds of duplicates. After a dedupe-guarded call (\<open>game_start\<close>, \<open>game_finished\<close>,
  \<open>stream_ready\<close>) has answered \<open>Ack\<close>, and after any further requests, a submission with
  the same dedupe key never succeeds again: it makes no adapter call and returns the
  state as it was. Its answer is 409 "duplicate event" from \<open>stream_ready\<close>, and from
  \<open>game_start\<close> and \<open>game_finished\<close> when the team's session has the submitted game id;
  without such a session the session check answers first, with 400.
\<close>

lemma duplicate_submission_rejected:
  assumes "handle st team_id ev e = (Ack, calls, st1)"
    and "event_key team_id' ev' = event_key team_id ev"
  shows "handle (serve_all st1 later) team_id' ev' e' =
           (if (\<exists>p. ev' = StreamReady p)
               \<or> map_option game_id (draft_cache (serve_all st1 later) team_id') = event_game_id ev'
            then JSONError 409 ''duplicate event''
            else JSONError 400 ''no active game for team'', [], serve_all st1 later)"
proof -
  from handle_Ack_key [OF assms(1)] assms(2) obtain k where k: "event_key team_id' ev' = Some k"
    "k \<in> event_dedupe st1" by auto
  with serve_all_dedupe_mono [of st1 later] have "k \<in> event_dedupe (serve_all st1 later)" by blast
  with k(1) show ?thesis by (rule handle_seen)
qed

text \<open>
  C3 on the code. Every repeat of a dedupe-guarded submission is to be answered 409.
  \<open>game_finished\<close> builds its dedupe key, tests it and records it like its siblings, but
  it removes the session before it records the key, and its session check comes before
  its dedupe check: with the session \<open>g_test\<close> of team \<open>KC\<close>, a \<open>game_start\<close> is accepted
  and its repeat is answered 409, a \<open>game_finished\<close> is accepted, its key is in the
  dedupe set afterwards, and its identical repeat is answered 400
  "no active game for team".
\<close>

theorem game_finished_repeat_answered_400:
  "fst (game_start active_state ''KC'' example_positions env_writing) = Ack
   \<and> fst (game_start (snd (snd (game_start active_state ''KC'' example_positions env_writing)))
           ''KC'' example_positions env_writing)
       = JSONError 409 ''duplicate event''
   \<and> fst (game_finished active_state ''KC'' example_finish env_writing) = Ack
   \<and> dedupe_key [''KC'', ''game_finished'', gf_game_id example_finish]
       \<in> event_dedupe (snd (snd (game_finished active_state ''KC'' example_finish env_writing)))
   \<and> game_finished (snd (snd (game_finished active_state ''KC'' example_finish env_writing)))
        ''KC'' example_finish env_writing
       = (JSONError 400 ''no active game for team'', [],
          snd (snd (game_finished active_state ''KC'' example_finish env_writing)))"
  by (simp add: example_defs eval_defs)


end
